theory Spec2Isabelle
  imports
    Main
    "HOL-Library.Sublist"
    "HOL-Library.Char_ord"
    "HOL-Library.List_Lexorder"
begin

unbundle bit_operations_syntax

section \<open>Errors\<close>

text \<open>
  The exceptions the embedded code can raise.  \<open>CHBError\<close> is the repository's own
  exception (\<open>chb.util.fileutil.CHBError\<close>) and carries its message;
  \<open>CHBSymbolicExpression\<close> (instruction address, destination operand, expression text)
  and \<open>CHBSimError\<close> (instruction address, message) are the two signals of the
  simulator (\<open>chb.simulation.SimUtil\<close>); the others are the Python run-time errors
  that the embedded functions can run into.  \<open>ValueError\<close> is what \<open>int(s, 16)\<close>
  raises on a string that is not a hexadecimal literal; its message is not kept.
  \<open>TypeError\<close> carries the name of the function called with the wrong number of
  arguments, \<open>AttributeError\<close> the name of the attribute that is missing.
\<close>

datatype error =
    CHBError string
  | CHBSymbolicExpression string string string
  | CHBSimError string string
  | KeyError string
  | UnboundLocalError string
  | TypeError string
  | AttributeError string
  | ValueError
  | IndexError

section \<open>Python built-ins on addresses\<close>

text \<open>
  Addresses are Python strings such as \<open>0x401a00\<close>.  The code converts them with
  \<open>int(s, 16)\<close> and back with \<open>hex(n)\<close>.

  \<open>hex(n)\<close> prints a sign for a negative number, the prefix \<open>0x\<close> and the
  lower-case hexadecimal digits without leading zeros.
\<close>

definition hexdigit :: "nat \<Rightarrow> char" where
  "hexdigit d = (if d < 10 then char_of (48 + d) else char_of (87 + d))"

function hexdigits :: "nat \<Rightarrow> string" where
  "hexdigits n = (if n < 16 then [hexdigit n] else hexdigits (n div 16) @ [hexdigit (n mod 16)])"
  by pat_completeness auto
termination
  by (relation "measure id") auto

definition py_hex :: "int \<Rightarrow> string" where
  "py_hex n = (if n < 0 then ''-0x'' @ hexdigits (nat (- n)) else ''0x'' @ hexdigits (nat n))"

text \<open>
  \<open>int(s, 16)\<close> strips white space at both ends, reads an optional sign, skips an
  optional prefix \<open>0x\<close> or \<open>0X\<close> (after which one underscore is allowed), and then
  wants at least one hexadecimal digit, of either case, with single underscores allowed
  between digits.  Anything else raises \<open>ValueError\<close>.  The white space of the model
  is the ASCII white space of \<open>str.isspace\<close>; characters beyond ASCII are outside
  the model.
\<close>

definition py_isspace :: "char \<Rightarrow> bool" where
  "py_isspace c = (let n = (of_char c :: nat) in (9 \<le> n \<and> n \<le> 13) \<or> (28 \<le> n \<and> n \<le> 32))"

definition py_strip :: "string \<Rightarrow> string" where
  "py_strip s = rev (dropWhile py_isspace (rev (dropWhile py_isspace s)))"

definition hexval :: "char \<Rightarrow> nat option" where
  "hexval c =
     (let n = (of_char c :: nat)
      in if 48 \<le> n \<and> n \<le> 57 then Some (n - 48)
         else if 97 \<le> n \<and> n \<le> 102 then Some (n - 87)
         else if 65 \<le> n \<and> n \<le> 70 then Some (n - 55)
         else None)"

text \<open>
  \<open>hex_digits_value acc p s\<close> reads the digits of \<open>s\<close> into the accumulator; \<open>p\<close>
  says that the character before was a digit, which is where an underscore or the end
  of the string may come.
\<close>

fun hex_digits_value :: "nat \<Rightarrow> bool \<Rightarrow> string \<Rightarrow> nat option" where
  "hex_digits_value acc p [] = (if p then Some acc else None)"
| "hex_digits_value acc p (c # cs) =
     (if c = CHR ''_'' then (if p then hex_digits_value acc False cs else None)
      else (case hexval c of
              None \<Rightarrow> None
            | Some d \<Rightarrow> hex_digits_value (16 * acc + d) True cs))"

definition split_sign :: "string \<Rightarrow> bool \<times> string" where
  "split_sign s =
     (case s of
        [] \<Rightarrow> (False, [])
      | c # cs \<Rightarrow> if c = CHR ''-'' then (True, cs)
                 else if c = CHR ''+'' then (False, cs)
                 else (False, s))"

fun skip_prefix16 :: "string \<Rightarrow> string" where
  "skip_prefix16 (a # b # cs) =
     (if a = CHR ''0'' \<and> (b = CHR ''x'' \<or> b = CHR ''X'')
      then (case cs of u # ds \<Rightarrow> if u = CHR ''_'' then ds else cs | [] \<Rightarrow> cs)
      else a # b # cs)"
| "skip_prefix16 s = s"

definition py_int16 :: "string \<Rightarrow> error + int" where
  "py_int16 s =
     (let (neg, s2) = split_sign (py_strip s)
      in case hex_digits_value 0 False (skip_prefix16 s2) of
           None \<Rightarrow> Inl ValueError
         | Some n \<Rightarrow> Inr (if neg then - int n else int n))"

text \<open>
  An address is canonical when it is the string that \<open>hex\<close> prints for its own value;
  the analyzer writes its addresses in this form.  \<open>addr_value\<close> is the number a
  canonical address stands for.
\<close>

definition canonical :: "string \<Rightarrow> bool" where
  "canonical a = (case py_int16 a of Inl e \<Rightarrow> False | Inr n \<Rightarrow> py_hex n = a)"

definition addr_value :: "string \<Rightarrow> int" where
  "addr_value a = (case py_int16 a of Inl e \<Rightarrow> 0 | Inr n \<Rightarrow> n)"

text \<open>Python dictionaries keep insertion order; \<open>d[k] = v\<close> keeps the place of an old key.\<close>

fun dict_set :: "'k \<Rightarrow> 'v \<Rightarrow> ('k \<times> 'v) list \<Rightarrow> ('k \<times> 'v) list" where
  "dict_set k v [] = [(k, v)]"
| "dict_set k v ((k', v') # kvs) =
     (if k = k' then (k, v) # kvs else (k', v') # dict_set k v kvs)"

definition dict_keys :: "('k \<times> 'v) list \<Rightarrow> 'k list" where
  "dict_keys d = map fst d"

fun mapM_err :: "('a \<Rightarrow> error + 'b) \<Rightarrow> 'a list \<Rightarrow> error + 'b list" where
  "mapM_err f [] = Inr []"
| "mapM_err f (x # xs) =
     (case f x of
        Inl e \<Rightarrow> Inl e
      | Inr y \<Rightarrow> (case mapM_err f xs of Inl e \<Rightarrow> Inl e | Inr ys \<Rightarrow> Inr (y # ys)))"

section \<open>Instructions\<close>

text \<open>
  \<open>chb.app.Instruction\<close> is used by the relational analyses only through its address,
  its byte string (a string of hexadecimal digits, two per byte) and its rendered
  annotation.
\<close>

record instruction =
  iaddr :: string
  bytestring :: string
  annotation :: string

text \<open>
  Modelled from the spec: \<open>Instruction.rev_bytestring\<close> is not among the sources.
  The spec has it as the byte-reversed encoding; a byte is two characters of the byte
  string.
\<close>

fun rev_bytestring_of :: "string \<Rightarrow> string" where
  "rev_bytestring_of (a # b # cs) = rev_bytestring_of cs @ [a, b]"
| "rev_bytestring_of cs = cs"

definition rev_bytestring :: "instruction \<Rightarrow> string" where
  "rev_bytestring i = rev_bytestring_of (bytestring i)"

text \<open>
  Modelled from the spec: \<open>Instruction.md5\<close> is not among the sources.  The spec has
  it as the content hash of the encoding; the hash function itself (\<open>hashlib.md5\<close>)
  is the parameter \<open>h\<close>.
\<close>

definition instr_md5 :: "(string \<Rightarrow> string) \<Rightarrow> instruction \<Rightarrow> string" where
  "instr_md5 h i = h (bytestring i)"

text \<open>
  Modelled from the spec: \<open>Instruction.rev_md5\<close> is not among the sources.  The spec
  has it as the content hash of the byte-reversed encoding.
\<close>

definition instr_rev_md5 :: "(string \<Rightarrow> string) \<Rightarrow> instruction \<Rightarrow> string" where
  "instr_rev_md5 h i = h (rev_bytestring i)"

section \<open>BasicBlock\<close>

text \<open>
  \<open>instructions\<close> is the dictionary from instruction address to instruction.
  \<open>sorted\<close> on a list of Python strings sorts by the order of strings (character by
  character, by code point, a proper prefix first), which is the order of
  \<^typ>\<open>string\<close> here.  \<open>[-1]\<close> on the empty list raises \<open>IndexError\<close>.
\<close>

record basic_block =
  baddr :: string
  instructions :: "(string \<times> instruction) list"

definition lastaddr :: "basic_block \<Rightarrow> error + string" where
  "lastaddr b =
     (case sort (dict_keys (instructions b)) of
        [] \<Rightarrow> Inl IndexError
      | k # ks \<Rightarrow> Inr (last (k # ks)))"

definition last_instruction :: "basic_block \<Rightarrow> error + instruction" where
  "last_instruction b =
     (case lastaddr b of
        Inl e \<Rightarrow> Inl e
      | Inr a \<Rightarrow> (case map_of (instructions b) a of
                    None \<Rightarrow> Inl (KeyError a)
                  | Some i \<Rightarrow> Inr i))"

definition block_md5 :: "(string \<Rightarrow> string) \<Rightarrow> basic_block \<Rightarrow> string" where
  "block_md5 h b = h (concat (map (\<lambda>(a, i). bytestring i) (instructions b)))"

definition block_rev_md5 :: "(string \<Rightarrow> string) \<Rightarrow> basic_block \<Rightarrow> string" where
  "block_rev_md5 h b = h (concat (map (\<lambda>(a, i). rev_bytestring i) (instructions b)))"

text \<open>
  \<open>is_numeric_max_key b a\<close>: \<open>a\<close> is a key of the instruction dictionary of the
  block, and no key has a greater value under \<open>int(_, 16)\<close>.
\<close>

definition is_numeric_max_key :: "basic_block \<Rightarrow> string \<Rightarrow> bool" where
  "is_numeric_max_key b a =
     (a \<in> set (dict_keys (instructions b)) \<and>
      list_all (\<lambda>k. addr_value k \<le> addr_value a) (dict_keys (instructions b)))"

text \<open>
  \<open>uniform_keys b\<close>: the keys of the instruction dictionary are canonical addresses of
  non-negative value, all of one length.
\<close>

definition uniform_keys :: "basic_block \<Rightarrow> bool" where
  "uniform_keys b =
     list_all (\<lambda>k. canonical k \<and> 0 \<le> addr_value k
                   \<and> list_all (\<lambda>k'. length k' = length k) (dict_keys (instructions b)))
       (dict_keys (instructions b))"

section \<open>Functions and application access\<close>

text \<open>
  Of \<open>chb.app.Function\<close> the relational analyses read the function address, the two
  content hashes (\<open>fn.md5\<close>, \<open>fn.rev_md5\<close>), the dictionary of basic blocks
  (\<open>fn.blocks\<close>) and the edge set of the control-flow graph
  (\<open>fn.cfg.edges_as_set\<close>).
\<close>

record function_rec =
  faddr :: string
  fn_md5 :: string
  fn_rev_md5 :: string
  blocks :: "(string \<times> basic_block) list"
  edges_as_set :: "(string \<times> string) set"

text \<open>
  Of \<open>chb.app.AppAccess\<close> the relational analyses read the byte order of the header
  (\<open>app.header.is_big_endian\<close>), the table of function hashes
  (\<open>app.function_md5s\<close>), the list of function addresses
  (\<open>app.appfunction_addrs\<close>) and the functions themselves (\<open>app.function(faddr)\<close>,
  here a lookup in \<open>app_functions\<close> that raises when the address is unknown).
\<close>

record app_access =
  is_big_endian :: bool
  function_md5s :: "(string \<times> string) list"
  appfunction_addrs :: "string list"
  app_functions :: "(string \<times> function_rec) list"

definition app_function :: "app_access \<Rightarrow> string \<Rightarrow> error + function_rec" where
  "app_function app a =
     (case map_of (app_functions app) a of
        None \<Rightarrow> Inl (CHBError (''Function not found: '' @ a))
      | Some f \<Rightarrow> Inr f)"

section \<open>InstructionRelationalAnalysis\<close>

record instruction_relational_analysis =
  ira_app1 :: app_access
  ira_app2 :: app_access
  ira_instr1 :: instruction
  ira_instr2 :: "instruction option"

definition is_mapped :: "instruction_relational_analysis \<Rightarrow> bool" where
  "is_mapped ira = (ira_instr2 ira \<noteq> None)"

definition instr1 :: "instruction_relational_analysis \<Rightarrow> instruction" where
  "instr1 ira = ira_instr1 ira"

definition instr2 :: "instruction_relational_analysis \<Rightarrow> error + instruction" where
  "instr2 ira =
     (if is_mapped ira then Inr (the (ira_instr2 ira))
      else Inl (CHBError (''No corresponding instruction found for '' @ iaddr (instr1 ira))))"

definition ira_same_endianness :: "instruction_relational_analysis \<Rightarrow> bool" where
  "ira_same_endianness ira = (is_big_endian (ira_app1 ira) = is_big_endian (ira_app2 ira))"

text \<open>
  \<open>same_address\<close> and \<open>has_different_annotation\<close> read \<open>self.instr2\<close> only behind
  the \<open>is_mapped\<close> test, so the raise of \<open>instr2\<close> is never reached from them; the
  \<open>Inl\<close> branches below stand for that unreachable raise.
\<close>

definition same_address :: "instruction_relational_analysis \<Rightarrow> bool" where
  "same_address ira =
     (is_mapped ira \<and>
      (case instr2 ira of Inr i2 \<Rightarrow> iaddr (instr1 ira) = iaddr i2 | Inl e \<Rightarrow> False))"

definition has_different_annotation :: "instruction_relational_analysis \<Rightarrow> bool" where
  "has_different_annotation ira =
     (if is_mapped ira then
        (case instr2 ira of
           Inr i2 \<Rightarrow> annotation (instr1 ira) \<noteq> annotation i2
         | Inl e \<Rightarrow> True)
      else True)"

text \<open>
  The loop of \<open>calls_function\<close>: \<open>c in annotation\<close> on Python strings is the test for
  a contiguous substring, which is \<^const>\<open>sublist\<close>.  The \<open>else\<close> of the \<open>for\<close>
  runs when the loop ends without having returned.
\<close>

fun calls_function_loop :: "string \<Rightarrow> string list \<Rightarrow> bool" where
  "calls_function_loop ann [] = False"
| "calls_function_loop ann (c # cs) =
     (if sublist c ann \<and> sublist ''call'' ann then True
      else calls_function_loop ann cs)"

definition calls_function :: "instruction_relational_analysis \<Rightarrow> string list \<Rightarrow> bool" where
  "calls_function ira callees =
     (let ann = annotation (instr1 ira)
      in if length callees = 0 then True else calls_function_loop ann callees)"

definition is_md5_equal :: "(string \<Rightarrow> string) \<Rightarrow> instruction_relational_analysis \<Rightarrow> bool" where
  "is_md5_equal h ira =
     (if is_mapped ira then
        (case instr2 ira of
           Inr i2 \<Rightarrow>
             if ira_same_endianness ira then instr_md5 h (instr1 ira) = instr_md5 h i2
             else instr_md5 h (instr1 ira) = instr_rev_md5 h i2
         | Inl e \<Rightarrow> False)
      else False)"

definition changes :: "(string \<Rightarrow> string) \<Rightarrow> instruction_relational_analysis \<Rightarrow> string list" where
  "changes h ira =
     (let result = [];
          result = (if \<not> same_address ira then result @ [''address''] else result);
          result = (if \<not> is_md5_equal h ira then result @ [''bytes''] else result);
          result = (if has_different_annotation ira then result @ [''semantics''] else result)
      in result)"

definition is_changed :: "(string \<Rightarrow> string) \<Rightarrow> instruction_relational_analysis \<Rightarrow> bool" where
  "is_changed h ira = (length (changes h ira) > 0)"

section \<open>FunctionRelationalAnalysis\<close>

text \<open>
  The object holds the two applications, the two functions and its caches.  Of the
  caches only \<open>_blockmapping\<close> is kept: the caches of the control-flow graphs and of
  the edge sets are filled with the value that a later read computes again, so reading
  through them gives \<open>fn.cfg.edges_as_set\<close> whenever the object is fresh.
\<close>

record function_relational_analysis =
  fra_app1 :: app_access
  fra_fn1 :: function_rec
  fra_app2 :: app_access
  fra_fn2 :: function_rec
  fra_blockmapping :: "(string \<times> string) list"

definition FunctionRelationalAnalysis_init ::
  "app_access \<Rightarrow> function_rec \<Rightarrow> app_access \<Rightarrow> function_rec \<Rightarrow> function_relational_analysis"
where
  "FunctionRelationalAnalysis_init a1 f1 a2 f2 =
     \<lparr>fra_app1 = a1, fra_fn1 = f1, fra_app2 = a2, fra_fn2 = f2, fra_blockmapping = []\<rparr>"

definition faddr1 :: "function_relational_analysis \<Rightarrow> string" where
  "faddr1 fra = faddr (fra_fn1 fra)"

definition faddr2 :: "function_relational_analysis \<Rightarrow> string" where
  "faddr2 fra = faddr (fra_fn2 fra)"

definition offset :: "function_relational_analysis \<Rightarrow> error + int" where
  "offset fra =
     (case py_int16 (faddr2 fra) of
        Inl e \<Rightarrow> Inl e
      | Inr a2 \<Rightarrow> (case py_int16 (faddr1 fra) of
                     Inl e \<Rightarrow> Inl e
                   | Inr a1 \<Rightarrow> Inr (a2 - a1)))"

definition fra_same_endianness :: "function_relational_analysis \<Rightarrow> bool" where
  "fra_same_endianness fra = (is_big_endian (fra_app1 fra) = is_big_endian (fra_app2 fra))"

definition address2_align :: "function_relational_analysis \<Rightarrow> string \<Rightarrow> error + string" where
  "address2_align fra addr2 =
     (case py_int16 addr2 of
        Inl e \<Rightarrow> Inl e
      | Inr n \<Rightarrow> (case offset fra of
                    Inl e \<Rightarrow> Inl e
                  | Inr d \<Rightarrow> Inr (py_hex (n - d))))"

definition edge2_align ::
  "function_relational_analysis \<Rightarrow> string \<times> string \<Rightarrow> error + string \<times> string" where
  "edge2_align fra e2 =
     (case address2_align fra (fst e2) of
        Inl e \<Rightarrow> Inl e
      | Inr s \<Rightarrow> (case address2_align fra (snd e2) of
                    Inl e \<Rightarrow> Inl e
                  | Inr t \<Rightarrow> Inr (s, t)))"

definition basic_blocks1 :: "function_relational_analysis \<Rightarrow> (string \<times> basic_block) list" where
  "basic_blocks1 fra = blocks (fra_fn1 fra)"

definition basic_blocks2 :: "function_relational_analysis \<Rightarrow> (string \<times> basic_block) list" where
  "basic_blocks2 fra = blocks (fra_fn2 fra)"

definition edges1 :: "function_relational_analysis \<Rightarrow> (string \<times> string) set" where
  "edges1 fra = edges_as_set (fra_fn1 fra)"

definition edges2 :: "function_relational_analysis \<Rightarrow> (string \<times> string) set" where
  "edges2 fra = edges_as_set (fra_fn2 fra)"

definition fra_is_md5_equal :: "function_relational_analysis \<Rightarrow> bool" where
  "fra_is_md5_equal fra =
     (if fra_same_endianness fra then fn_md5 (fra_fn1 fra) = fn_md5 (fra_fn2 fra)
      else fn_md5 (fra_fn1 fra) = fn_rev_md5 (fra_fn2 fra))"

text \<open>
  \<open>set(self.edge2_align(e) for e in self.edges2)\<close>: the comprehension raises as soon
  as one edge has an end that \<open>int(_, 16)\<close> does not read, whatever the order in which
  the set is walked.
\<close>

definition edges2_aligned :: "function_relational_analysis \<Rightarrow> error + (string \<times> string) set" where
  "edges2_aligned fra =
     (if \<exists>e \<in> edges2 fra. isl (edge2_align fra e) then Inl ValueError
      else Inr ((\<lambda>e. projr (edge2_align fra e)) ` edges2 fra))"

definition is_structurally_equivalent :: "function_relational_analysis \<Rightarrow> error + bool" where
  "is_structurally_equivalent fra =
     (if length (basic_blocks1 fra) = length (basic_blocks2 fra)
         \<and> card (edges1 fra) = card (edges2 fra) then
        (let bbaddrs1 = dict_keys (basic_blocks1 fra)
         in case mapM_err (address2_align fra) (dict_keys (basic_blocks2 fra)) of
              Inl e \<Rightarrow> Inl e
            | Inr bbaddrs2 \<Rightarrow>
                (let bdiff = set bbaddrs2 - set bbaddrs1
                 in if card bdiff = 0 then
                      (case edges2_aligned fra of
                         Inl e \<Rightarrow> Inl e
                       | Inr es \<Rightarrow> (let ediff = edges1 fra - es in Inr (card ediff = 0)))
                    else Inr False))
      else Inr False)"

fun block_mapping_loop ::
  "function_relational_analysis \<Rightarrow> string list \<Rightarrow> (string \<times> string) list
     \<Rightarrow> error + (string \<times> string) list" where
  "block_mapping_loop fra [] m = Inr m"
| "block_mapping_loop fra (b1 # bs) m =
     (case py_int16 b1 of
        Inl e \<Rightarrow> Inl e
      | Inr n \<Rightarrow> (case offset fra of
                    Inl e \<Rightarrow> Inl e
                  | Inr d \<Rightarrow> block_mapping_loop fra bs (dict_set b1 (py_hex (n + d)) m)))"

text \<open>
  \<open>block_mapping\<close> returns the mapping together with the object, whose cache it may
  have filled.
\<close>

definition block_mapping ::
  "function_relational_analysis \<Rightarrow> error + (string \<times> string) list \<times> function_relational_analysis"
where
  "block_mapping fra =
     (if length (fra_blockmapping fra) = 0 then
        (case is_structurally_equivalent fra of
           Inl e \<Rightarrow> Inl e
         | Inr eqv \<Rightarrow>
             if eqv then
               (case block_mapping_loop fra (dict_keys (basic_blocks1 fra)) (fra_blockmapping fra) of
                  Inl e \<Rightarrow> Inl e
                | Inr m \<Rightarrow> Inr (m, fra\<lparr>fra_blockmapping := m\<rparr>))
             else Inr (fra_blockmapping fra, fra))
      else Inr (fra_blockmapping fra, fra))"

text \<open>
  The four conditions of structural equivalence under the offset \<open>d\<close>, on the numbers
  the addresses stand for.
\<close>

definition shifted_blocks_equal :: "function_relational_analysis \<Rightarrow> int \<Rightarrow> bool" where
  "shifted_blocks_equal fra d =
     ((\<lambda>b. addr_value b - d) ` set (dict_keys (basic_blocks2 fra))
        = addr_value ` set (dict_keys (basic_blocks1 fra)))"

definition shifted_edges_equal :: "function_relational_analysis \<Rightarrow> int \<Rightarrow> bool" where
  "shifted_edges_equal fra d =
     ((\<lambda>e. (addr_value (fst e) - d, addr_value (snd e) - d)) ` edges2 fra
        = (\<lambda>e. (addr_value (fst e), addr_value (snd e))) ` edges1 fra)"

text \<open>
  What the theorem on structural equivalence asks of a function pair: the keys of a
  dictionary are distinct, a Python set is finite, and every block address and every
  end of an edge is a canonical address.
\<close>

definition fra_addresses :: "function_relational_analysis \<Rightarrow> string set" where
  "fra_addresses fra =
     set (dict_keys (basic_blocks1 fra)) \<union> set (dict_keys (basic_blocks2 fra))
       \<union> fst ` edges1 fra \<union> snd ` edges1 fra \<union> fst ` edges2 fra \<union> snd ` edges2 fra"

definition fra_wellformed :: "function_relational_analysis \<Rightarrow> bool" where
  "fra_wellformed fra =
     (distinct (dict_keys (basic_blocks1 fra)) \<and> distinct (dict_keys (basic_blocks2 fra))
      \<and> finite (edges1 fra) \<and> finite (edges2 fra)
      \<and> Ball (fra_addresses fra) canonical)"

section \<open>RelationalAnalysis\<close>

text \<open>
  The object holds the two applications, the two sorted lists of function addresses, the
  mapping and the callees given by the user, and the caches \<open>_functionmapping\<close> and
  \<open>_functionanalyses\<close>.  The constructor takes the lists of function addresses from
  the applications when the caller gives none, and leaves both caches empty.
\<close>

record relational_analysis =
  ra_app1 :: app_access
  ra_app2 :: app_access
  ra_faddrs1 :: "string list"
  ra_faddrs2 :: "string list"
  ra_usermapping :: "(string \<times> string) list"
  ra_callees :: "string list"
  ra_functionmapping :: "(string \<times> string) list"
  ra_functionanalyses :: "(string \<times> function_relational_analysis) list"

definition RelationalAnalysis_init ::
  "app_access \<Rightarrow> app_access \<Rightarrow> string list \<Rightarrow> string list \<Rightarrow> (string \<times> string) list
     \<Rightarrow> string list \<Rightarrow> relational_analysis" where
  "RelationalAnalysis_init a1 a2 faddrs1 faddrs2 usermapping callees =
     \<lparr>ra_app1 = a1, ra_app2 = a2,
      ra_faddrs1 = (if faddrs1 \<noteq> [] then sort faddrs1 else sort (appfunction_addrs a1)),
      ra_faddrs2 = (if faddrs2 \<noteq> [] then sort faddrs2 else sort (appfunction_addrs a2)),
      ra_usermapping = usermapping, ra_callees = callees,
      ra_functionmapping = [], ra_functionanalyses = []\<rparr>"

definition md5s1 :: "relational_analysis \<Rightarrow> (string \<times> string) list" where
  "md5s1 ra = function_md5s (ra_app1 ra)"

definition md5s2 :: "relational_analysis \<Rightarrow> (string \<times> string) list" where
  "md5s2 ra = function_md5s (ra_app2 ra)"

definition fncount1 :: "relational_analysis \<Rightarrow> nat" where
  "fncount1 ra = length (ra_faddrs1 ra)"

definition fncount2 :: "relational_analysis \<Rightarrow> nat" where
  "fncount2 ra = length (ra_faddrs2 ra)"

text \<open>
  \<open>chb.relational.CallgraphMatcher\<close> is not among the sources.  The parameter of this
  type stands for \<open>CallgraphMatcher(app1, faddrs1, app1.callgraph(), app2, faddrs2,
  app2.callgraph(), usermapping).function_mapping\<close>.
\<close>

type_synonym callgraph_matcher =
  "app_access \<Rightarrow> string list \<Rightarrow> app_access \<Rightarrow> string list \<Rightarrow> (string \<times> string) list
     \<Rightarrow> (string \<times> string) list"

text \<open>
  The second branch of \<open>function_mapping\<close>.  \<open>sorted(set(xs) - set(ys))\<close> is the sorted
  list of the distinct elements of \<open>xs\<close> that are not in \<open>ys\<close>.
\<close>

definition sorted_difference :: "string list \<Rightarrow> string list \<Rightarrow> string list" where
  "sorted_difference xs ys = sort (remdups (filter (\<lambda>a. a \<notin> set ys) xs))"

fun pair_loop :: "(string \<times> string) list \<Rightarrow> (string \<times> string) list \<Rightarrow> (string \<times> string) list" where
  "pair_loop [] result = result"
| "pair_loop ((k1, k2) # ps) result = pair_loop ps (dict_set k1 k2 result)"

fun identity_loop :: "string list \<Rightarrow> (string \<times> string) list \<Rightarrow> (string \<times> string) list" where
  "identity_loop [] result = result"
| "identity_loop (k1 # as) result =
     (if k1 \<notin> set (dict_keys result) then identity_loop as (dict_set k1 k1 result)
      else identity_loop as result)"

definition direct_function_mapping :: "string list \<Rightarrow> string list \<Rightarrow> (string \<times> string) list" where
  "direct_function_mapping faddrs1 faddrs2 =
     (let diff1 = sorted_difference faddrs1 faddrs2;
          diff2 = sorted_difference faddrs2 faddrs1;
          result = pair_loop (zip diff1 diff2) []
      in identity_loop faddrs1 result)"

text \<open>
  \<open>function_mapping\<close> returns the mapping together with the object, whose cache it
  may have filled.
\<close>

definition function_mapping ::
  "callgraph_matcher \<Rightarrow> relational_analysis \<Rightarrow> (string \<times> string) list \<times> relational_analysis"
where
  "function_mapping cgm ra =
     (if length (ra_functionmapping ra) > 0 then (ra_functionmapping ra, ra)
      else if fncount1 ra = fncount2 ra then
        (let result = direct_function_mapping (ra_faddrs1 ra) (ra_faddrs2 ra)
         in (result, ra\<lparr>ra_functionmapping := result\<rparr>))
      else
        (let m = cgm (ra_app1 ra) (ra_faddrs1 ra) (ra_app2 ra) (ra_faddrs2 ra) (ra_usermapping ra)
         in (m, ra\<lparr>ra_functionmapping := m\<rparr>)))"

text \<open>
  \<open>function_analyses\<close> builds each analysis with
  \<open>FunctionRelationalAnalysis(self.app1, fn1, self.app2, fn2, self.patchevents)\<close>, five
  arguments, while \<open>FunctionRelationalAnalysis.__init__\<close> takes four (\<open>app1\<close>,
  \<open>fn1\<close>, \<open>app2\<close>, \<open>fn2\<close>).  The call raises \<open>TypeError\<close> and builds
  nothing.
\<close>

definition FunctionRelationalAnalysis_call5 ::
  "app_access \<Rightarrow> function_rec \<Rightarrow> app_access \<Rightarrow> function_rec
     \<Rightarrow> error + function_relational_analysis" where
  "FunctionRelationalAnalysis_call5 a1 f1 a2 f2 = Inl (TypeError ''FunctionRelationalAnalysis.__init__'')"

text \<open>
  The loop of \<open>function_analyses\<close>.  The function mapping is the same at every turn of
  the loop, so it is read once.  The two functions are looked up before the constructor
  is called.
\<close>

fun function_analyses_loop ::
  "app_access \<Rightarrow> app_access \<Rightarrow> (string \<times> string) list \<Rightarrow> string list
     \<Rightarrow> (string \<times> function_relational_analysis) list
     \<Rightarrow> error + (string \<times> function_relational_analysis) list" where
  "function_analyses_loop a1 a2 fm [] acc = Inr acc"
| "function_analyses_loop a1 a2 fm (k1 # as) acc =
     (case map_of fm k1 of
        None \<Rightarrow> function_analyses_loop a1 a2 fm as acc
      | Some k2 \<Rightarrow>
          (case app_function a1 k1 of
             Inl e \<Rightarrow> Inl e
           | Inr fn1 \<Rightarrow>
               (case app_function a2 k2 of
                  Inl e \<Rightarrow> Inl e
                | Inr fn2 \<Rightarrow>
                    (case FunctionRelationalAnalysis_call5 a1 fn1 a2 fn2 of
                       Inl e \<Rightarrow> Inl e
                     | Inr fra \<Rightarrow>
                         function_analyses_loop a1 a2 fm as (dict_set k1 fra acc)))))"

definition function_analyses ::
  "callgraph_matcher \<Rightarrow> relational_analysis
     \<Rightarrow> error + (string \<times> function_relational_analysis) list \<times> relational_analysis" where
  "function_analyses cgm ra =
     (if length (ra_functionanalyses ra) = 0 then
        (let (fm, ra1) = function_mapping cgm ra
         in case function_analyses_loop (ra_app1 ra) (ra_app2 ra) fm (ra_faddrs1 ra)
                   (ra_functionanalyses ra) of
              Inl e \<Rightarrow> Inl e
            | Inr fas \<Rightarrow> Inr (fas, ra1\<lparr>ra_functionanalyses := fas\<rparr>))
      else Inr (ra_functionanalyses ra, ra))"

text \<open>
  The first loop of \<open>functions_changed\<close> walks the items of
  \<open>function_analyses\<close> and tests \<open>fra.moved or not fra.is_md5_equal\<close>.
  \<open>FunctionRelationalAnalysis\<close> has no attribute or property \<open>moved\<close>, and
  \<open>fra.moved\<close> is read first, so the first turn of the loop raises
  \<open>AttributeError\<close>.  Over no items the loop leaves the result empty and its
  variable \<open>faddr\<close> unbound.  The loop gives the result and the variable.
\<close>

fun analyses_loop ::
  "(string \<times> function_relational_analysis) list \<Rightarrow> error + string list \<times> string option" where
  "analyses_loop [] = Inr ([], None)"
| "analyses_loop ((k, fra) # items) = Inl (AttributeError ''moved'')"

text \<open>
  The second loop of \<open>functions_changed\<close>, over the items of \<open>md5s1\<close>.  It reads
  \<open>faddr\<close>, the variable of the first loop, in \<open>faddr in self.md5s2\<close> and in
  \<open>faddr in result\<close>, and \<open>faddr1\<close>, its own variable, in \<open>self.md5s2[faddr1]\<close>.
  Reading \<open>faddr\<close> when the first loop has not run raises \<open>UnboundLocalError\<close>;
  \<open>self.md5s2[faddr1]\<close> raises \<open>KeyError\<close> when \<open>faddr1\<close> is not a key.  The
  result is the list of changed functions and the list of addresses for which the
  warning was logged.  In the model \<open>lv\<close> is the variable \<open>faddr\<close> of the first
  loop and \<open>k1\<close> is \<open>faddr1\<close>.
\<close>

fun md5_loop ::
  "string option \<Rightarrow> (string \<times> string) list \<Rightarrow> (string \<times> string) list \<Rightarrow> string list
     \<Rightarrow> string list \<Rightarrow> error + string list \<times> string list" where
  "md5_loop lv m2 [] result warnings = Inr (result, warnings)"
| "md5_loop lv m2 ((k1, md51) # items) result warnings =
     (case lv of
        None \<Rightarrow> Inl (UnboundLocalError ''faddr'')
      | Some fa \<Rightarrow>
          if fa \<in> set (dict_keys m2) then
            (case map_of m2 k1 of
               None \<Rightarrow> Inl (KeyError k1)
             | Some md52 \<Rightarrow>
                 if md51 = md52 \<or> fa \<in> set result then md5_loop lv m2 items result warnings
                 else md5_loop lv m2 items (result @ [k1]) (warnings @ [k1]))
          else md5_loop lv m2 items result warnings)"

definition functions_changed ::
  "callgraph_matcher \<Rightarrow> relational_analysis \<Rightarrow> error + string list \<times> string list" where
  "functions_changed cgm ra =
     (case function_analyses cgm ra of
        Inl e \<Rightarrow> Inl e
      | Inr (fas, ra1) \<Rightarrow>
          (case analyses_loop fas of
             Inl e \<Rightarrow> Inl e
           | Inr (result, lv) \<Rightarrow> md5_loop lv (md5s2 ra) (md5s1 ra) result []))"

section \<open>Lowering variables to AST lvalues\<close>

text \<open>
  \<open>chb.astinterface.ASTInterface\<close> is not among the sources; the lowering only calls
  its constructors and never looks into what they return.  The lvalues are therefore
  the free terms built from the constructors that the embedded functions call:
  \<open>mk_stack_variable_lval(offset, vtype=ctype)\<close>, \<open>mk_named_lval(name)\<close>,
  \<open>mk_formal_lval(formal)\<close> and \<open>mk_register_variable_lval(name)\<close>.  Of a formal
  parameter the code reads \<open>argindex\<close> and the list \<open>arglocs\<close> of its locations.
\<close>

record formal_info =
  argindex :: int
  arglocs :: "string list"

datatype 'ty ast_lval =
    StackVariableLval int "'ty option"
  | NamedLval string
  | FormalLval formal_info
  | RegisterVariableLval string

text \<open>
  \<open>chb.invariants.VMemoryOffset\<close> is not among the sources.  Of an offset the code
  reads \<open>is_constant_value_offset\<close>, \<open>offsetvalue()\<close> and \<open>str(offset)\<close>:
  \<open>ConstantValueOffset k\<close> is an offset of constant value \<open>k\<close>, and
  \<open>OtherOffset s\<close> is any other offset, printed as \<open>s\<close>.
\<close>

datatype vmemory_offset =
    ConstantValueOffset int
  | OtherOffset string

definition stack_variable_to_ast_lvals ::
  "vmemory_offset \<Rightarrow> int \<Rightarrow> 'ty option \<Rightarrow> 'ty ast_lval list" where
  "stack_variable_to_ast_lvals off sz ctype =
     (case off of
        ConstantValueOffset k \<Rightarrow>
          if sz = 2 then [StackVariableLval k ctype, StackVariableLval (k + 1) ctype]
          else [StackVariableLval k ctype]
      | OtherOffset s \<Rightarrow> [NamedLval (''stack: '' @ s)])"

text \<open>
  The width of an lvalue is the size of the type it was built with;
  \<open>astree.type_size_in_bytes\<close> is not among the sources and is the parameter
  \<open>size_of\<close>.  \<open>one_byte_lval size_of lv\<close>: the lvalue is a stack slot built with a
  type of size 1.  A slot built without a type has no width of its own.
\<close>

definition one_byte_lval :: "('ty \<Rightarrow> int) \<Rightarrow> 'ty ast_lval \<Rightarrow> bool" where
  "one_byte_lval size_of lv =
     (case lv of
        StackVariableLval k (Some t) \<Rightarrow> size_of t = 1
      | _ \<Rightarrow> False)"

text \<open>
  \<open>chb.invariants.VConstantValueVariable.VInitialRegisterValue\<close> is not among the
  sources.  Of an initial register value the code reads \<open>is_argument_value\<close>,
  \<open>argument_index()\<close> and \<open>str(register)\<close>.
\<close>

record vinit_register_value =
  is_argument_value :: bool
  argument_index :: int
  register_name :: string

text \<open>
  \<open>astree.get_formal_locindices(argindex)\<close> is the parameter \<open>glf\<close>: it gives the
  formal parameter that the argument index belongs to and the indices of the locations
  of that formal that the argument covers.

  The loop of \<open>vinitregister_value_list_to_ast_lvals\<close> carries the two sets and the
  formal of the last turn, which is unbound before the first.
\<close>

fun locindices_loop ::
  "(int \<Rightarrow> formal_info \<times> int list) \<Rightarrow> vinit_register_value list
     \<Rightarrow> int set \<times> int set \<times> formal_info option \<Rightarrow> int set \<times> int set \<times> formal_info option" where
  "locindices_loop glf [] st = st"
| "locindices_loop glf (v # vs) (formal_argindices, formal_locindices, formal_opt) =
     (let (formal, locindices) = glf (argument_index v)
      in locindices_loop glf vs
           (insert (argindex formal) formal_argindices,
            formal_locindices \<union> set locindices,
            Some formal))"

text \<open>
  \<open>formal\<close> is read only when \<open>formal_argindices\<close> has one element, which it has
  only after a turn of the loop; the case \<open>None\<close> below is never reached.
\<close>

definition vinitregister_value_list_to_ast_lvals ::
  "(int \<Rightarrow> formal_info \<times> int list) \<Rightarrow> vinit_register_value list \<Rightarrow> 'ty ast_lval list" where
  "vinitregister_value_list_to_ast_lvals glf vconstvars =
     (let fallback = map (\<lambda>v. RegisterVariableLval (register_name v)) vconstvars
      in if list_all is_argument_value vconstvars then
           (case locindices_loop glf vconstvars ({}, {}, None) of
              (formal_argindices, formal_locindices, formal_opt) \<Rightarrow>
                if card formal_argindices = 1 then
                  (case formal_opt of
                     Some formal \<Rightarrow>
                       if card formal_locindices = length (arglocs formal)
                       then [FormalLval formal]
                       else fallback
                   | None \<Rightarrow> fallback)
                else fallback)
         else fallback)"

text \<open>
  The words of the claim on the merge of register arguments.  \<open>covers_formal glf vs f\<close>:
  the list is not empty, every element is an argument value of the formal \<open>f\<close>, and
  the location indices of the elements together are all the indices of the locations
  of \<open>f\<close>.  \<open>formals_wellformed glf vs\<close> is what is taken for granted of
  \<open>get_formal_locindices\<close>: the indices it returns are indices into the locations of
  the formal it returns, and it returns one formal per \<open>argindex\<close>.
\<close>

definition formal_of :: "(int \<Rightarrow> formal_info \<times> int list) \<Rightarrow> vinit_register_value \<Rightarrow> formal_info" where
  "formal_of glf v = fst (glf (argument_index v))"

definition locindices_of :: "(int \<Rightarrow> formal_info \<times> int list) \<Rightarrow> vinit_register_value \<Rightarrow> int set" where
  "locindices_of glf v = set (snd (glf (argument_index v)))"

definition covers_formal ::
  "(int \<Rightarrow> formal_info \<times> int list) \<Rightarrow> vinit_register_value list \<Rightarrow> formal_info \<Rightarrow> bool" where
  "covers_formal glf vs f =
     (vs \<noteq> [] \<and> list_all (\<lambda>v. is_argument_value v \<and> formal_of glf v = f) vs
      \<and> \<Union> (set (map (locindices_of glf) vs)) = {0 ..< int (length (arglocs f))})"

definition formals_wellformed ::
  "(int \<Rightarrow> formal_info \<times> int list) \<Rightarrow> vinit_register_value list \<Rightarrow> bool" where
  "formals_wellformed glf vs =
     list_all (\<lambda>v. locindices_of glf v \<subseteq> {0 ..< int (length (arglocs (formal_of glf v)))}
                   \<and> list_all (\<lambda>w. argindex (formal_of glf w) = argindex (formal_of glf v)
                                     \<longrightarrow> formal_of glf w = formal_of glf v) vs) vs"

section \<open>Simulation values and the simulate step of three opcodes\<close>

text \<open>
  The symbolic values follow the classes of \<open>SimSymbolicValue.py\<close>: a symbol with its
  name, the three kinds of address (global, stack, base) with their offset, string
  addresses, environment strings and tainted data.  The offset of an address is a
  double word, kept as its number and whether it is defined.  The literal values
  (\<open>chb.simulation.SimValue\<close>, not among the sources) are kept the same way.
\<close>

datatype sim_value =
    SimLiteralValue bool int
  | SimSymbol string
  | SimGlobalAddress bool int
  | SimStackAddress bool int
  | SimBaseAddress string bool int
  | SimStringAddress string
  | SimEnvironmentString int
  | SimTaintedData string

fun is_literal :: "sim_value \<Rightarrow> bool" where
  "is_literal (SimLiteralValue d v) = True"
| "is_literal _ = False"

fun is_symbol :: "sim_value \<Rightarrow> bool" where
  "is_symbol (SimSymbol n) = True"
| "is_symbol _ = False"

fun is_global_address :: "sim_value \<Rightarrow> bool" where
  "is_global_address (SimGlobalAddress d off) = True"
| "is_global_address _ = False"

fun is_stack_address :: "sim_value \<Rightarrow> bool" where
  "is_stack_address (SimStackAddress d off) = True"
| "is_stack_address _ = False"

fun is_base_address :: "sim_value \<Rightarrow> bool" where
  "is_base_address (SimBaseAddress b d off) = True"
| "is_base_address _ = False"

definition is_address :: "sim_value \<Rightarrow> bool" where
  "is_address v = (is_global_address v \<or> is_stack_address v \<or> is_base_address v)"

text \<open>
  \<open>SimAddress.is_defined\<close> is the definedness of the offset.  The other symbolic
  values are built by \<open>SimValue.__init__\<close> without arguments and count as defined.
\<close>

fun is_defined :: "sim_value \<Rightarrow> bool" where
  "is_defined (SimLiteralValue d v) = d"
| "is_defined (SimGlobalAddress d off) = d"
| "is_defined (SimStackAddress d off) = d"
| "is_defined (SimBaseAddress b d off) = d"
| "is_defined _ = True"

definition is_undefined :: "sim_value \<Rightarrow> bool" where
  "is_undefined v = (\<not> is_defined v)"

text \<open>
  The accessors are read by the code only behind the test for the class they belong
  to; on the other classes they are given a value that is never used.
\<close>

fun literal_value :: "sim_value \<Rightarrow> int" where
  "literal_value (SimLiteralValue d v) = v"
| "literal_value _ = 0"

fun offsetvalue :: "sim_value \<Rightarrow> int" where
  "offsetvalue (SimGlobalAddress d off) = off"
| "offsetvalue (SimStackAddress d off) = off"
| "offsetvalue (SimBaseAddress b d off) = off"
| "offsetvalue _ = 0"

fun base_name :: "sim_value \<Rightarrow> string" where
  "base_name (SimGlobalAddress d off) = ''global''"
| "base_name (SimStackAddress d off) = ''stack''"
| "base_name (SimBaseAddress b d off) = b"
| "base_name _ = []"

fun symbol_name :: "sim_value \<Rightarrow> string" where
  "symbol_name (SimSymbol n) = n"
| "symbol_name _ = []"

text \<open>
  Modelled from the spec: \<open>SU.max32\<close> is not among the sources.  The spec has all
  arithmetic on machine words modulo \<open>2^32\<close>, so \<open>max32 + 1\<close> is \<open>2^32\<close>.
\<close>

definition max32 :: int where
  "max32 = 4294967295"

text \<open>
  Modelled from the spec: \<open>SV.mk_simvalue\<close> and \<open>SV.simUndefinedDW\<close> are not among
  the sources.  They are the defined literal of a given number and the undefined double
  word.
\<close>

definition mk_simvalue :: "int \<Rightarrow> sim_value" where
  "mk_simvalue n = SimLiteralValue True n"

definition simUndefinedDW :: sim_value where
  "simUndefinedDW = SimLiteralValue False 0"

definition mk_symbol :: "string \<Rightarrow> sim_value" where
  "mk_symbol name = SimSymbol name"

text \<open>
  Modelled from the spec: the addition of double words that \<open>add_offset\<close> of the
  three address classes calls on the offset is not among the sources.  The spec has all
  arithmetic on machine words modulo \<open>2^32\<close>.
\<close>

fun add_offset :: "sim_value \<Rightarrow> int \<Rightarrow> sim_value" where
  "add_offset (SimGlobalAddress d off) i = SimGlobalAddress d ((off + i) mod (max32 + 1))"
| "add_offset (SimStackAddress d off) i = SimStackAddress d ((off + i) mod (max32 + 1))"
| "add_offset (SimBaseAddress b d off) i = SimBaseAddress b d ((off + i) mod (max32 + 1))"
| "add_offset v i = v"

text \<open>
  What the three simulate steps use of the literal values and is not among the
  sources is passed in: the printing of a value (\<open>str\<close>), \<open>SimLiteralValue.add\<close>,
  \<open>SimLiteralValue.bitwise_ror\<close>, and the two top bits \<open>msb\<close> and \<open>msb2\<close> of a
  literal.
\<close>

record simvalue_ops =
  sv_str :: "sim_value \<Rightarrow> string"
  lit_add :: "sim_value \<Rightarrow> sim_value \<Rightarrow> sim_value"
  lit_bitwise_ror :: "sim_value \<Rightarrow> sim_value \<Rightarrow> sim_value"
  lit_msb :: "sim_value \<Rightarrow> int"
  lit_msb2 :: "sim_value \<Rightarrow> int"

text \<open>
  Modelled from the spec: the simulation state is not among the sources.  The spec has
  it expose reading the current value of an operand, writing a value to an operand,
  updating a condition flag and advancing the program counter.  Operands are named by
  the string they print as; the program counter advances by one instruction word.
\<close>

record sim_state =
  operand_values :: "string \<Rightarrow> sim_value"
  flag_values :: "string \<Rightarrow> bool option"
  programcounter :: int

definition rhs :: "sim_state \<Rightarrow> string \<Rightarrow> sim_value" where
  "rhs st opnd = operand_values st opnd"

definition simstate_set :: "sim_state \<Rightarrow> string \<Rightarrow> sim_value \<Rightarrow> sim_state" where
  "simstate_set st opnd v = st\<lparr>operand_values := (operand_values st)(opnd := v)\<rparr>"

definition update_flag :: "sim_state \<Rightarrow> string \<Rightarrow> bool \<Rightarrow> sim_state" where
  "update_flag st f b = st\<lparr>flag_values := (flag_values st)(f \<mapsto> b)\<rparr>"

definition increment_programcounter :: "sim_state \<Rightarrow> sim_state" where
  "increment_programcounter st = st\<lparr>programcounter := programcounter st + 4\<rparr>"

text \<open>
  A MIPS opcode with a destination and two sources, and an x86 opcode with a
  destination and a source; the operands are looked up in the operand dictionary by the
  arguments of the opcode.
\<close>

record mips_opcode =
  dst_operand :: string
  src1_operand :: string
  src2_operand :: string

record x86_opcode =
  x86_dst_operand :: string
  x86_src_operand :: string

text \<open>
  The end of the two MIPS steps: write the result to the destination and advance the
  program counter.  The trace string that \<open>simulate\<close> returns
  (\<open>SU.simassign\<close>, not among the sources) is left out; the step returns the new state.
\<close>

definition assign_and_advance :: "sim_state \<Rightarrow> string \<Rightarrow> sim_value \<Rightarrow> error + sim_state" where
  "assign_and_advance st dstop result = Inr (increment_programcounter (simstate_set st dstop result))"

definition MIPSSubtractUnsigned_simulate ::
  "simvalue_ops \<Rightarrow> mips_opcode \<Rightarrow> string \<Rightarrow> sim_state \<Rightarrow> error + sim_state" where
  "MIPSSubtractUnsigned_simulate ops opc ia simstate =
     (let dstop = dst_operand opc;
          src1op = src1_operand opc;
          src2op = src2_operand opc;
          src1val = rhs simstate src1op;
          src2val = rhs simstate src2op
      in if is_undefined src1val \<or> is_undefined src2val then
           assign_and_advance simstate dstop simUndefinedDW
         else if is_symbol src1val \<or> is_symbol src2val then
           Inl (CHBSymbolicExpression ia dstop
                  (sv_str ops src1val @ '' - '' @ sv_str ops src2val))
         else if is_base_address src1val \<and> is_base_address src2val then
           (if base_name src1val = base_name src2val then
              assign_and_advance simstate dstop
                (mk_simvalue ((offsetvalue src1val - offsetvalue src2val) mod (max32 + 1)))
            else assign_and_advance simstate dstop simUndefinedDW)
         else if is_stack_address src1val \<and> is_stack_address src2val then
           assign_and_advance simstate dstop
             (mk_simvalue ((offsetvalue src1val - offsetvalue src2val) mod (max32 + 1)))
         else if is_stack_address src1val \<and> is_literal src2val then
           assign_and_advance simstate dstop (add_offset src1val (- literal_value src2val))
         else if is_global_address src1val \<and> is_global_address src2val then
           assign_and_advance simstate dstop
             (mk_simvalue ((offsetvalue src1val - offsetvalue src2val) mod (max32 + 1)))
         else if is_global_address src1val \<and> is_literal src2val then
           assign_and_advance simstate dstop
             (mk_simvalue ((offsetvalue src1val - literal_value src2val) mod (max32 + 1)))
         else if is_literal src1val \<and> is_literal src2val then
           assign_and_advance simstate dstop
             (mk_simvalue ((literal_value src1val - literal_value src2val) mod (max32 + 1)))
         else assign_and_advance simstate dstop simUndefinedDW)"

definition MIPSAddUnsigned_simulate ::
  "simvalue_ops \<Rightarrow> mips_opcode \<Rightarrow> string \<Rightarrow> sim_state \<Rightarrow> error + sim_state" where
  "MIPSAddUnsigned_simulate ops opc ia simstate =
     (let dstop = dst_operand opc;
          src1op = src1_operand opc;
          src2op = src2_operand opc;
          src1val = rhs simstate src1op;
          src2val = rhs simstate src2op
      in if is_symbol src2val then
           assign_and_advance simstate dstop
             (mk_symbol (symbol_name src2val @ '':add '' @ sv_str ops src1val))
         else if is_symbol src1val \<or> is_symbol src2val then
           Inl (CHBSymbolicExpression ia dstop
                  (sv_str ops src1val @ '' + '' @ sv_str ops src2val))
         else if is_address src2val \<and> is_literal src1val \<and> is_defined src1val then
           assign_and_advance simstate dstop (add_offset src2val (literal_value src1val))
         else if is_literal src1val \<and> is_defined src1val then
           assign_and_advance simstate dstop (lit_add ops src1val src2val)
         else assign_and_advance simstate dstop simUndefinedDW)"

definition X86RotateRight_simulate ::
  "simvalue_ops \<Rightarrow> x86_opcode \<Rightarrow> string \<Rightarrow> sim_state \<Rightarrow> error + sim_state" where
  "X86RotateRight_simulate ops opc ia simstate =
     (let srcop = x86_src_operand opc;
          dstop = x86_dst_operand opc;
          srcval = rhs simstate srcop;
          dstval = rhs simstate dstop
      in if is_literal dstval \<and> is_literal srcval then
           (let result = lit_bitwise_ror ops dstval srcval;
                st1 = simstate_set simstate dstop result
            in if literal_value srcval > 0 then
                 (let cflag = lit_msb ops result;
                      st2 = update_flag st1 ''CF'' (cflag = 1)
                  in if literal_value srcval = 1 then
                       Inr (update_flag st2 ''OF''
                              ((lit_msb ops result XOR lit_msb2 ops result) = 1))
                     else Inr st2)
               else Inr st1)
         else
           Inl (CHBSimError ia
                  (''Bitwise_ror not yet implemented for '' @ dstop @ '':''
                     @ sv_str ops dstval @ '', '' @ srcop @ '':'' @ sv_str ops srcval)))"

text \<open>
  \<open>concrete_result\<close>: the value is a defined literal, the kind of value that an
  arithmetic step on resolved operands writes.
\<close>

definition concrete_result :: "sim_value \<Rightarrow> bool" where
  "concrete_result v = (is_literal v \<and> is_defined v)"

section \<open>Concrete inputs\<close>

text \<open>Inputs on which the theorems below are run.\<close>

definition big :: app_access where
  "big = \<lparr>is_big_endian = True, function_md5s = [], appfunction_addrs = [], app_functions = []\<rparr>"

definition little :: app_access where
  "little = \<lparr>is_big_endian = False, function_md5s = [], appfunction_addrs = [], app_functions = []\<rparr>"

definition ira_example :: "string \<Rightarrow> instruction_relational_analysis" where
  "ira_example ann =
     \<lparr>ira_app1 = big, ira_app2 = little,
      ira_instr1 = \<lparr>iaddr = ''0x10'', bytestring = ''e59f0010'', annotation = ann\<rparr>,
      ira_instr2 = Some \<lparr>iaddr = ''0x10'', bytestring = ''10009fe5'', annotation = ann\<rparr>\<rparr>"

text \<open>The same pair of instructions in two binaries of the same byte order.\<close>

definition ira_example_same :: instruction_relational_analysis where
  "ira_example_same =
     \<lparr>ira_app1 = big, ira_app2 = big,
      ira_instr1 = \<lparr>iaddr = ''0x10'', bytestring = ''e59f0010'', annotation = ''nop''\<rparr>,
      ira_instr2 = Some \<lparr>iaddr = ''0x10'', bytestring = ''10009fe5'', annotation = ''nop''\<rparr>\<rparr>"

definition ira_unmapped :: instruction_relational_analysis where
  "ira_unmapped =
     \<lparr>ira_app1 = big, ira_app2 = big,
      ira_instr1 = \<lparr>iaddr = ''0x10'', bytestring = ''e59f0010'', annotation = ''nop''\<rparr>,
      ira_instr2 = None\<rparr>"

definition nop_at :: "string \<Rightarrow> instruction" where
  "nop_at a = \<lparr>iaddr = a, bytestring = ''00000000'', annotation = ''nop''\<rparr>"

text \<open>A block of two instructions, at \<open>0x9\<close> and at \<open>0x10\<close>.\<close>

definition c9_block :: basic_block where
  "c9_block =
     \<lparr>baddr = ''0x9'',
      instructions = [(''0x9'', nop_at ''0x9''), (''0x10'', nop_at ''0x10'')]\<rparr>"

text \<open>A block of two instructions, at \<open>0x3fc\<close> and at \<open>0x400\<close>.\<close>

definition c9_block_uniform :: basic_block where
  "c9_block_uniform =
     \<lparr>baddr = ''0x3fc'',
      instructions = [(''0x400'', nop_at ''0x400''), (''0x3fc'', nop_at ''0x3fc'')]\<rparr>"

definition block_at :: "string \<Rightarrow> basic_block" where
  "block_at a = \<lparr>baddr = a, instructions = [(a, nop_at a)]\<rparr>"

text \<open>
  A function of two blocks and one edge at \<open>0x400\<close>, and the same function moved to
  \<open>0x500\<close>.
\<close>

definition fn_a :: function_rec where
  "fn_a =
     \<lparr>faddr = ''0x400'', fn_md5 = ''aa'', fn_rev_md5 = ''bb'',
      blocks = [(''0x400'', block_at ''0x400''), (''0x410'', block_at ''0x410'')],
      edges_as_set = {(''0x400'', ''0x410'')}\<rparr>"

definition fn_b :: function_rec where
  "fn_b =
     \<lparr>faddr = ''0x500'', fn_md5 = ''aa'', fn_rev_md5 = ''bb'',
      blocks = [(''0x500'', block_at ''0x500''), (''0x510'', block_at ''0x510'')],
      edges_as_set = {(''0x500'', ''0x510'')}\<rparr>"

definition fra_ab :: function_relational_analysis where
  "fra_ab = FunctionRelationalAnalysis_init big fn_a big fn_b"

text \<open>The same two functions in binaries of different byte order.\<close>

definition fra_ab_mixed :: function_relational_analysis where
  "fra_ab_mixed = FunctionRelationalAnalysis_init big fn_a little fn_b"

text \<open>
  A function one of whose blocks has a context-prefixed address, the form that
  \<open>BasicBlock.real_baddr\<close> strips, compared with itself.
\<close>

definition fn_p :: function_rec where
  "fn_p =
     \<lparr>faddr = ''0x400'', fn_md5 = ''aa'', fn_rev_md5 = ''bb'',
      blocks = [(''0x400'', block_at ''0x400''), (''F0x400_0x410'', block_at ''F0x400_0x410'')],
      edges_as_set = {(''0x400'', ''F0x400_0x410'')}\<rparr>"

definition fra_pp :: function_relational_analysis where
  "fra_pp = FunctionRelationalAnalysis_init big fn_p big fn_p"

text \<open>A stand-in for callgraph matching that returns the mapping it is seeded with.\<close>

definition cgm_seed :: callgraph_matcher where
  "cgm_seed a1 f1 a2 f2 um = um"

text \<open>
  Two binaries with two functions each and the same number of functions; the user maps
  \<open>0x100\<close> to \<open>0x300\<close>.
\<close>

definition ra_c2 :: relational_analysis where
  "ra_c2 =
     RelationalAnalysis_init big big [''0x100'', ''0x200''] [''0x100'', ''0x300'']
       [(''0x100'', ''0x300'')] []"

text \<open>
  An original and a patched binary with functions at \<open>0x100\<close> and \<open>0x200\<close>, both
  changed by the patch, compared on the function at \<open>0x100\<close> only.
\<close>

definition fn_with :: "string \<Rightarrow> string \<Rightarrow> function_rec" where
  "fn_with a h =
     \<lparr>faddr = a, fn_md5 = h, fn_rev_md5 = h, blocks = [(a, block_at a)], edges_as_set = {}\<rparr>"

definition app_orig :: app_access where
  "app_orig =
     \<lparr>is_big_endian = False,
      function_md5s = [(''0x100'', ''aa''), (''0x200'', ''bb'')],
      appfunction_addrs = [''0x100'', ''0x200''],
      app_functions = [(''0x100'', fn_with ''0x100'' ''aa''), (''0x200'', fn_with ''0x200'' ''bb'')]\<rparr>"

definition app_patched :: app_access where
  "app_patched =
     \<lparr>is_big_endian = False,
      function_md5s = [(''0x100'', ''a2''), (''0x200'', ''cc'')],
      appfunction_addrs = [''0x100'', ''0x200''],
      app_functions = [(''0x100'', fn_with ''0x100'' ''a2''), (''0x200'', fn_with ''0x200'' ''cc'')]\<rparr>"

definition ra_c1 :: relational_analysis where
  "ra_c1 = RelationalAnalysis_init app_orig app_patched [''0x100''] [''0x100''] [] []"

text \<open>
  A patched binary with one function more, so that the function counts differ, and a
  stand-in for callgraph matching that maps no function.
\<close>

definition app_patched_more :: app_access where
  "app_patched_more =
     \<lparr>is_big_endian = False,
      function_md5s = [(''0x100'', ''a2''), (''0x200'', ''cc''), (''0x300'', ''dd'')],
      appfunction_addrs = [''0x100'', ''0x200'', ''0x300''],
      app_functions = [(''0x100'', fn_with ''0x100'' ''a2''), (''0x200'', fn_with ''0x200'' ''cc''),
                       (''0x300'', fn_with ''0x300'' ''dd'')]\<rparr>"

definition cgm_none :: callgraph_matcher where
  "cgm_none a1 f1 a2 f2 um = []"

definition ra_c1_unmapped :: relational_analysis where
  "ra_c1_unmapped = RelationalAnalysis_init app_orig app_patched_more [] [] [] []"

text \<open>Three scalar types and their sizes in bytes.\<close>

datatype c_scalar = CChar8 | CShort16 | CInt32

fun c_scalar_size :: "c_scalar \<Rightarrow> int" where
  "c_scalar_size CChar8 = 1"
| "c_scalar_size CShort16 = 2"
| "c_scalar_size CInt32 = 4"

text \<open>
  A formal parameter held in the two registers \<open>R0\<close> and \<open>R1\<close>: argument index
  \<open>0\<close> is its first location and argument index \<open>1\<close> its second.
\<close>

definition formal64 :: formal_info where
  "formal64 = \<lparr>argindex = 0, arglocs = [''R0'', ''R1'']\<rparr>"

definition glf_pair :: "int \<Rightarrow> formal_info \<times> int list" where
  "glf_pair i =
     (if i = 0 then (formal64, [0])
      else if i = 1 then (formal64, [1])
      else (\<lparr>argindex = i, arglocs = [''stack'']\<rparr>, [0]))"

definition v_r0 :: vinit_register_value where
  "v_r0 = \<lparr>is_argument_value = True, argument_index = 0, register_name = ''R0''\<rparr>"

definition v_r1 :: vinit_register_value where
  "v_r1 = \<lparr>is_argument_value = True, argument_index = 1, register_name = ''R1''\<rparr>"

text \<open>
  A state in which the operand \<open>a0\<close> holds the symbol \<open>x\<close> and every other operand
  the literal \<open>5\<close>; an opcode with destination \<open>v0\<close> and sources \<open>a1\<close> and \<open>a0\<close>;
  and stand-ins for the operations on literals.
\<close>

definition st_sym :: sim_state where
  "st_sym =
     \<lparr>operand_values = (\<lambda>opnd. if opnd = ''a0'' then SimSymbol ''x'' else SimLiteralValue True 5),
      flag_values = (\<lambda>f. None), programcounter = 0\<rparr>"

definition opc_v0_a1_a0 :: mips_opcode where
  "opc_v0_a1_a0 = \<lparr>dst_operand = ''v0'', src1_operand = ''a1'', src2_operand = ''a0''\<rparr>"

definition xopc_a1_a0 :: x86_opcode where
  "xopc_a1_a0 = \<lparr>x86_dst_operand = ''a1'', x86_src_operand = ''a0''\<rparr>"

definition ops_plain :: simvalue_ops where
  "ops_plain =
     \<lparr>sv_str = (\<lambda>v. ''val''), lit_add = (\<lambda>a b. a), lit_bitwise_ror = (\<lambda>a b. a),
      lit_msb = (\<lambda>v. 0), lit_msb2 = (\<lambda>v. 0)\<rparr>"

text \<open>A block of one instruction with the given byte string.\<close>

definition block_with :: "string \<Rightarrow> basic_block" where
  "block_with bs =
     \<lparr>baddr = ''0x10'',
      instructions = [(''0x10'', \<lparr>iaddr = ''0x10'', bytestring = bs, annotation = ''nop''\<rparr>)]\<rparr>"

text \<open>
  The same user mapping with address lists of different lengths, and an analysis whose
  memoized mapping is already filled.
\<close>

definition ra_c2_short :: relational_analysis where
  "ra_c2_short =
     RelationalAnalysis_init big big [''0x100'', ''0x200''] [''0x100'']
       [(''0x100'', ''0x300'')] []"

definition ra_c2_memo :: relational_analysis where
  "ra_c2_memo = ra_c2\<lparr>ra_functionmapping := [(''0x100'', ''0x200'')]\<rparr>"

text \<open>An opcode with destination \<open>v0\<close> and sources \<open>a0\<close> and \<open>a1\<close>.\<close>

definition opc_v0_a0_a1 :: mips_opcode where
  "opc_v0_a0_a1 = \<lparr>dst_operand = ''v0'', src1_operand = ''a0'', src2_operand = ''a1''\<rparr>"

section \<open>Properties of the Python built-ins\<close>

declare hexdigits.simps [simp del]

lemma hexval_hexdigit: "d < 16 \<Longrightarrow> hexval (hexdigit d) = Some d"
  by (auto simp: hexval_def hexdigit_def Let_def)

lemma hexval_underscore: "hexval CHR ''_'' = None"
  by (simp add: hexval_def)

lemma hexval_space: "py_isspace c \<Longrightarrow> hexval c = None"
  by (auto simp: hexval_def py_isspace_def Let_def)

lemma hexdigits_nonempty: "hexdigits n \<noteq> []"
  by (subst hexdigits.simps) simp

lemma hexdigits_hexval: "c \<in> set (hexdigits n) \<Longrightarrow> hexval c \<noteq> None"
proof (induction n arbitrary: c rule: hexdigits.induct)
  case (1 n)
  show ?case
  proof (cases "n < 16")
    case True
    with "1.prems" show ?thesis
      by (subst (asm) hexdigits.simps) (simp add: hexval_hexdigit)
  next
    case False
    with "1.prems" have "c \<in> set (hexdigits (n div 16)) \<or> c = hexdigit (n mod 16)"
      by (subst (asm) hexdigits.simps) auto
    then show ?thesis
      using "1.IH" [OF False] by (auto simp: hexval_hexdigit)
  qed
qed

lemma hex_digits_value_digits:
  "xs \<noteq> [] \<Longrightarrow> \<forall>c\<in>set xs. hexval c \<noteq> None \<Longrightarrow>
   hex_digits_value acc p xs = Some (foldl (\<lambda>a c. 16 * a + the (hexval c)) acc xs)"
proof (induction xs arbitrary: acc p)
  case Nil
  then show ?case by simp
next
  case (Cons c cs)
  from Cons.prems obtain d where d: "hexval c = Some d" by auto
  then have nus: "c \<noteq> CHR ''_''" using hexval_underscore by auto
  show ?case
  proof (cases cs)
    case Nil
    with d nus show ?thesis by simp
  next
    case (Cons e es)
    then have "cs \<noteq> []" by simp
    moreover have "\<forall>c\<in>set cs. hexval c \<noteq> None" using Cons.prems by simp
    ultimately have "hex_digits_value (16 * acc + d) True cs
        = Some (foldl (\<lambda>a c. 16 * a + the (hexval c)) (16 * acc + d) cs)"
      by (rule Cons.IH)
    with d nus show ?thesis by simp
  qed
qed

lemma foldl_hexdigits: "foldl (\<lambda>a c. 16 * a + the (hexval c)) 0 (hexdigits n) = n"
proof (induction n rule: hexdigits.induct)
  case (1 n)
  show ?case
  proof (cases "n < 16")
    case True
    then show ?thesis
      by (subst hexdigits.simps) (simp add: hexval_hexdigit)
  next
    case False
    then show ?thesis
      using "1.IH" [OF False]
      by (subst hexdigits.simps) (simp add: hexval_hexdigit)
  qed
qed

lemma hex_digits_value_hexdigits: "hex_digits_value 0 False (hexdigits n) = Some n"
  using hex_digits_value_digits [of "hexdigits n" 0 False]
  by (simp add: hexdigits_nonempty hexdigits_hexval foldl_hexdigits)

lemma py_strip_id:
  assumes "s \<noteq> []" "\<not> py_isspace (hd s)" "\<not> py_isspace (last s)"
  shows "py_strip s = s"
proof -
  from assms have 1: "dropWhile py_isspace s = s"
    by (cases s) auto
  from assms have "rev s \<noteq> []" "\<not> py_isspace (hd (rev s))"
    by (simp_all add: hd_rev)
  then have "dropWhile py_isspace (rev s) = rev s"
    by (cases "rev s") auto
  with 1 show ?thesis by (simp add: py_strip_def)
qed

lemma last_hexdigits_not_space: "\<not> py_isspace (last (hexdigits n))"
proof -
  have "last (hexdigits n) \<in> set (hexdigits n)"
    by (simp add: hexdigits_nonempty)
  then show ?thesis using hexdigits_hexval hexval_space by blast
qed

lemma skip_prefix16_hexdigits:
  "skip_prefix16 (CHR ''0'' # CHR ''x'' # hexdigits n) = hexdigits n"
proof (cases "hexdigits n")
  case Nil
  then show ?thesis using hexdigits_nonempty by simp
next
  case (Cons c cs)
  then have "hexval c \<noteq> None"
    using hexdigits_hexval [of c n] by simp
  then have "c \<noteq> CHR ''_''" using hexval_underscore by auto
  with Cons show ?thesis by simp
qed

lemma space_minus: "\<not> py_isspace CHR ''-''"
  by (simp add: py_isspace_def)

lemma space_zero: "\<not> py_isspace CHR ''0''"
  by (simp add: py_isspace_def)

text \<open>Reading back what \<open>hex\<close> has printed gives the number again.\<close>

lemma py_int16_py_hex: "py_int16 (py_hex n) = Inr n"
proof (cases "n < 0")
  case True
  let ?s = "''-0x'' @ hexdigits (nat (- n))"
  have "py_strip ?s = ?s"
    by (rule py_strip_id)
       (simp_all add: space_minus space_zero last_hexdigits_not_space hexdigits_nonempty)
  moreover have "split_sign ?s = (True, ''0x'' @ hexdigits (nat (- n)))"
    by (simp add: split_sign_def)
  ultimately show ?thesis using True
    by (simp add: py_int16_def py_hex_def skip_prefix16_hexdigits hex_digits_value_hexdigits
             del: skip_prefix16.simps)
next
  case False
  let ?s = "''0x'' @ hexdigits (nat n)"
  have "py_strip ?s = ?s"
    by (rule py_strip_id)
       (simp_all add: space_minus space_zero last_hexdigits_not_space hexdigits_nonempty)
  moreover have "split_sign ?s = (False, ?s)"
    by (simp add: split_sign_def)
  ultimately show ?thesis using False
    by (simp add: py_int16_def py_hex_def skip_prefix16_hexdigits hex_digits_value_hexdigits
             del: skip_prefix16.simps)
qed

lemma py_hex_inj: "py_hex a = py_hex b \<Longrightarrow> a = b"
  by (metis py_int16_py_hex sum.inject(2))

lemma canonical_py_hex: "canonical (py_hex n)"
  by (simp add: canonical_def py_int16_py_hex)

lemma canonicalD: "canonical a \<Longrightarrow> py_int16 a = Inr (addr_value a) \<and> py_hex (addr_value a) = a"
  by (auto simp: canonical_def addr_value_def split: sum.splits)

lemma addr_value_inj: "canonical a \<Longrightarrow> canonical b \<Longrightarrow> addr_value a = addr_value b \<Longrightarrow> a = b"
  by (metis canonicalD)

section \<open>Properties of the instruction relational analysis\<close>

lemma rev_bytestring_of_snoc:
  "even (length xs) \<Longrightarrow> rev_bytestring_of (xs @ [a, b]) = a # b # rev_bytestring_of xs"
  by (induction xs rule: rev_bytestring_of.induct) auto

lemma length_rev_bytestring_of: "length (rev_bytestring_of xs) = length xs"
  by (induction xs rule: rev_bytestring_of.induct) auto

lemma rev_bytestring_of_involution:
  "even (length xs) \<Longrightarrow> rev_bytestring_of (rev_bytestring_of xs) = xs"
  by (induction xs rule: rev_bytestring_of.induct)
     (auto simp: rev_bytestring_of_snoc length_rev_bytestring_of)

text \<open>
  Claim C4.  For a mapped instruction pair, when the headers of the two binaries have
  the same byte order, \<open>is_md5_equal\<close> compares the two content hashes; when the byte
  orders differ it compares the hash of the first instruction with the hash of the
  byte-reversed encoding of the second, so two instructions whose encodings are each
  other's byte reversal compare equal in that case.  For a function pair,
  \<open>is_md5_equal\<close> compares \<open>fn1.md5\<close> with \<open>fn2.md5\<close> in the first case and with
  \<open>fn2.rev_md5\<close> in the second.  The reversed hash of a block is taken over the
  byte-reversed encodings of its instructions in their order, so it is the hash of any
  block whose instructions have those encodings.
\<close>

theorem md5_equality_endianness:
  "(ira_instr2 ira = Some i2 \<longrightarrow>
      (is_big_endian (ira_app1 ira) = is_big_endian (ira_app2 ira) \<longrightarrow>
         is_md5_equal h ira = (h (bytestring (ira_instr1 ira)) = h (bytestring i2)))
    \<and> (is_big_endian (ira_app1 ira) \<noteq> is_big_endian (ira_app2 ira) \<longrightarrow>
         is_md5_equal h ira
           = (h (bytestring (ira_instr1 ira)) = h (rev_bytestring_of (bytestring i2))))
    \<and> (is_big_endian (ira_app1 ira) \<noteq> is_big_endian (ira_app2 ira)
         \<and> bytestring (ira_instr1 ira) = rev_bytestring_of (bytestring i2) \<longrightarrow>
         is_md5_equal h ira)
    \<and> (is_big_endian (ira_app1 ira) \<noteq> is_big_endian (ira_app2 ira)
         \<and> even (length (bytestring (ira_instr1 ira)))
         \<and> bytestring i2 = rev_bytestring_of (bytestring (ira_instr1 ira)) \<longrightarrow>
         is_md5_equal h ira))
   \<and> (is_big_endian (fra_app1 fra) = is_big_endian (fra_app2 fra) \<longrightarrow>
         fra_is_md5_equal fra = (fn_md5 (fra_fn1 fra) = fn_md5 (fra_fn2 fra)))
   \<and> (is_big_endian (fra_app1 fra) \<noteq> is_big_endian (fra_app2 fra) \<longrightarrow>
         fra_is_md5_equal fra = (fn_md5 (fra_fn1 fra) = fn_rev_md5 (fra_fn2 fra)))
   \<and> (map (\<lambda>(a, i). bytestring i) (instructions b1)
         = map (\<lambda>(a, i). rev_bytestring i) (instructions b2) \<longrightarrow>
         block_md5 h b1 = block_rev_md5 h b2)"
  by (auto simp: is_md5_equal_def is_mapped_def instr2_def instr1_def instr_md5_def
      instr_rev_md5_def rev_bytestring_def fra_is_md5_equal_def rev_bytestring_of_involution
      block_md5_def block_rev_md5_def ira_same_endianness_def fra_same_endianness_def)

theorem md5_equality_endianness_witness:
  "ira_instr2 (ira_example ''nop'')
     = Some \<lparr>iaddr = ''0x10'', bytestring = ''10009fe5'', annotation = ''nop''\<rparr>
   \<and> is_big_endian (ira_app1 (ira_example ''nop'')) \<noteq> is_big_endian (ira_app2 (ira_example ''nop''))
   \<and> bytestring (ira_instr1 (ira_example ''nop'')) = rev_bytestring_of ''10009fe5''
   \<and> is_md5_equal id (ira_example ''nop'')
   \<and> is_big_endian (ira_app1 ira_example_same) = is_big_endian (ira_app2 ira_example_same)
   \<and> \<not> is_md5_equal id ira_example_same
   \<and> is_big_endian (fra_app1 fra_ab) = is_big_endian (fra_app2 fra_ab)
   \<and> fra_is_md5_equal fra_ab
   \<and> is_big_endian (fra_app1 fra_ab_mixed) \<noteq> is_big_endian (fra_app2 fra_ab_mixed)
   \<and> \<not> fra_is_md5_equal fra_ab_mixed
   \<and> map (\<lambda>(a, i). bytestring i) (instructions (block_with ''e59f0010''))
       = map (\<lambda>(a, i). rev_bytestring i) (instructions (block_with ''10009fe5''))
   \<and> block_md5 id (block_with ''e59f0010'') = block_rev_md5 id (block_with ''10009fe5'')"
  using md5_equality_endianness [of "ira_example ''nop''"
      "\<lparr>iaddr = ''0x10'', bytestring = ''10009fe5'', annotation = ''nop''\<rparr>" id fra_ab
      "block_with ''e59f0010''" "block_with ''10009fe5''"]
    md5_equality_endianness [of ira_example_same
      "\<lparr>iaddr = ''0x10'', bytestring = ''10009fe5'', annotation = ''nop''\<rparr>" id fra_ab_mixed
      "block_with ''e59f0010''" "block_with ''10009fe5''"]
  by (simp add: ira_example_def ira_example_same_def big_def little_def
      fra_ab_def fra_ab_mixed_def FunctionRelationalAnalysis_init_def fn_a_def fn_b_def
      block_with_def rev_bytestring_def)

text \<open>
  Claim C5.  An instruction relational analysis built without a second instruction
  reports a change (all three of address, bytes and semantics), and asking it for the
  matched instruction raises the error that says no corresponding instruction was
  found.
\<close>

theorem unmapped_is_changed:
  assumes "ira_instr2 ira = None"
  shows "is_changed h ira
         \<and> changes h ira = [''address'', ''bytes'', ''semantics'']
         \<and> instr2 ira
             = Inl (CHBError (''No corresponding instruction found for '' @ iaddr (ira_instr1 ira)))"
  using assms
  by (simp add: is_changed_def changes_def same_address_def is_md5_equal_def
      has_different_annotation_def is_mapped_def instr2_def instr1_def)

theorem unmapped_is_changed_witness:
  "ira_instr2 ira_unmapped = None
   \<and> is_changed id ira_unmapped
   \<and> instr2 ira_unmapped = Inl (CHBError ''No corresponding instruction found for 0x10'')"
  using unmapped_is_changed [of ira_unmapped id]
  by (simp add: ira_unmapped_def)

lemma calls_function_loop_iff:
  "calls_function_loop ann cs = ((\<exists>c\<in>set cs. sublist c ann) \<and> sublist ''call'' ann)"
  by (induction cs) auto

text \<open>
  Claim C10.  \<open>calls_function\<close> is true for the empty list of callees; for a list
  that is not empty it is true exactly when some callee occurs in the annotation of the
  first instruction and the word \<open>call\<close> occurs there too.  The second instruction
  has no part in the answer.
\<close>

theorem calls_function_spec:
  "calls_function ira callees
     = (callees = [] \<or>
        ((\<exists>c\<in>set callees. sublist c (annotation (ira_instr1 ira)))
          \<and> sublist ''call'' (annotation (ira_instr1 ira))))
   \<and> calls_function (ira\<lparr>ira_instr2 := i2\<rparr>) callees = calls_function ira callees"
  by (auto simp: calls_function_def instr1_def calls_function_loop_iff Let_def)

theorem calls_function_spec_witness:
  "calls_function (ira_example ''call strcpy(a, b)'') [''memcpy'', ''strcpy'']
   \<and> \<not> calls_function (ira_example ''v0 := strcpy'') [''memcpy'', ''strcpy'']
   \<and> calls_function (ira_example ''nop'') []"
  using calls_function_spec [of "ira_example ''call strcpy(a, b)''" "[''memcpy'', ''strcpy'']" None]
    calls_function_spec [of "ira_example ''v0 := strcpy''" "[''memcpy'', ''strcpy'']" None]
    calls_function_spec [of "ira_example ''nop''" "[]" None]
  by (simp add: ira_example_def sublist_Cons_right)

section \<open>Properties of basic blocks\<close>

lemma sorted_last_Max:
  fixes xs :: "'a::linorder list"
  assumes "sorted xs" "xs \<noteq> []"
  shows "last xs = Max (set xs)"
proof -
  have "\<forall>y\<in>set xs. y \<le> last xs"
  proof
    fix y assume "y \<in> set xs"
    then obtain i where i: "i < length xs" "xs ! i = y"
      by (auto simp: in_set_conv_nth)
    with assms have "xs ! i \<le> xs ! (length xs - 1)"
      by (intro sorted_nth_mono) auto
    with i assms show "y \<le> last xs"
      by (simp add: last_conv_nth)
  qed
  moreover have "last xs \<in> set xs" using assms by simp
  ultimately show ?thesis
    by (intro Max_eqI [symmetric]) auto
qed

lemma lastaddr_Max:
  assumes "instructions b \<noteq> []"
  shows "lastaddr b = Inr (Max (set (dict_keys (instructions b))))"
proof -
  let ?ks = "sort (dict_keys (instructions b))"
  from assms have "length ?ks \<noteq> 0"
    by (simp add: dict_keys_def)
  then have ne: "?ks \<noteq> []" by (simp del: length_sort)
  then have "lastaddr b = Inr (last ?ks)"
    by (cases ?ks) (simp_all add: lastaddr_def)
  moreover have "last ?ks = Max (set ?ks)"
    using ne by (intro sorted_last_Max) simp_all
  ultimately show ?thesis by simp
qed

text \<open>
  Among hexadecimal digit strings of one length the order of strings is the order of
  the numbers.
\<close>

lemma snoc_less_iff:
  fixes xs ys :: "'a::linorder list"
  assumes "length xs = length ys"
  shows "(xs @ [x] < ys @ [y]) = (xs < ys \<or> (xs = ys \<and> x < y))"
  using assms by (induction xs ys rule: list_induct2) auto

lemma hexdigit_mono: "a < 16 \<Longrightarrow> b < 16 \<Longrightarrow> (hexdigit a < hexdigit b) = (a < b)"
  by (auto simp: hexdigit_def less_char_def)

lemma hexdigits_inj: "hexdigits n = hexdigits m \<Longrightarrow> n = m"
  by (metis hex_digits_value_hexdigits option.inject)

lemma length_hexdigits_small: "(length (hexdigits n) = 1) = (n < 16)"
proof (cases "n < 16")
  case True
  then show ?thesis by (subst hexdigits.simps) simp
next
  case False
  then show ?thesis
    by (subst hexdigits.simps) (simp add: hexdigits_nonempty)
qed

lemma div_mod_less_iff:
  fixes n m :: nat
  shows "(n < m) = (n div 16 < m div 16 \<or> (n div 16 = m div 16 \<and> n mod 16 < m mod 16))"
proof -
  obtain q1 r1 q2 r2 where d: "q1 = n div 16" "r1 = n mod 16" "q2 = m div 16" "r2 = m mod 16"
    by simp
  then have "n = 16 * q1 + r1" "m = 16 * q2 + r2" "r1 < 16" "r2 < 16"
    by simp_all
  then have "(n < m) = (q1 < q2 \<or> (q1 = q2 \<and> r1 < r2))"
    by arith
  with d show ?thesis by simp
qed

lemma hexdigits_less_iff:
  "length (hexdigits n) = length (hexdigits m) \<Longrightarrow> (hexdigits n < hexdigits m) = (n < m)"
proof (induction n arbitrary: m rule: hexdigits.induct)
  case (1 n)
  show ?case
  proof (cases "n < 16")
    case True
    then have "length (hexdigits n) = 1" using length_hexdigits_small [of n] by simp
    with "1.prems" have m: "m < 16" using length_hexdigits_small [of m] by simp
    have "hexdigits n = [hexdigit n]" "hexdigits m = [hexdigit m]"
      using True m by (subst hexdigits.simps, simp)+
    then show ?thesis using True m by (simp add: hexdigit_mono)
  next
    case False
    then have "length (hexdigits n) \<noteq> 1" using length_hexdigits_small [of n] by simp
    with "1.prems" have m: "\<not> m < 16" using length_hexdigits_small [of m] by simp
    have n_eq: "hexdigits n = hexdigits (n div 16) @ [hexdigit (n mod 16)]"
      using False by (subst hexdigits.simps) simp
    have m_eq: "hexdigits m = hexdigits (m div 16) @ [hexdigit (m mod 16)]"
      using m by (subst hexdigits.simps) simp
    from "1.prems" n_eq m_eq
    have len: "length (hexdigits (n div 16)) = length (hexdigits (m div 16))" by simp
    have IH: "(hexdigits (n div 16) < hexdigits (m div 16)) = (n div 16 < m div 16)"
      using False len by (rule "1.IH")
    have eq: "(hexdigits (n div 16) = hexdigits (m div 16)) = (n div 16 = m div 16)"
      using hexdigits_inj by auto
    have "(hexdigits n < hexdigits m)
            = (n div 16 < m div 16 \<or> (n div 16 = m div 16 \<and> n mod 16 < m mod 16))"
      unfolding n_eq m_eq by (simp add: snoc_less_iff [OF len] IH eq hexdigit_mono)
    also have "\<dots> = (n < m)"
      by (rule div_mod_less_iff [symmetric])
    finally show ?thesis .
  qed
qed

lemma canonical_less_iff:
  assumes "canonical a" "canonical b" "0 \<le> addr_value a" "0 \<le> addr_value b"
    and "length a = length b"
  shows "(a < b) = (addr_value a < addr_value b)"
proof -
  let ?n = "nat (addr_value a)" and ?m = "nat (addr_value b)"
  have a: "a = ''0x'' @ hexdigits ?n" and b: "b = ''0x'' @ hexdigits ?m"
    using assms canonicalD [of a] canonicalD [of b] by (simp_all add: py_hex_def)
  with assms(5) have len: "length (hexdigits ?n) = length (hexdigits ?m)"
    by (metis add_left_cancel length_append)
  have "(a < b) = (hexdigits ?n < hexdigits ?m)"
    by (subst a, subst b) simp
  also have "\<dots> = (?n < ?m)" using len by (rule hexdigits_less_iff)
  also have "\<dots> = (addr_value a < addr_value b)" using assms(3,4) by auto
  finally show ?thesis .
qed

lemma canonical_le_iff:
  assumes "canonical a" "canonical b" "0 \<le> addr_value a" "0 \<le> addr_value b"
    and "length a = length b"
  shows "(a \<le> b) = (addr_value a \<le> addr_value b)"
proof -
  have "(a = b) = (addr_value a = addr_value b)"
    using assms(1,2) addr_value_inj by auto
  with canonical_less_iff [OF assms] show ?thesis
    by (auto simp: le_less)
qed

lemma uniform_max_is_numeric_max:
  assumes ne: "instructions b \<noteq> []" and u: "uniform_keys b"
  shows "is_numeric_max_key b (Max (set (dict_keys (instructions b))))"
proof -
  let ?K = "dict_keys (instructions b)"
  let ?m = "Max (set ?K)"
  have fin: "finite (set ?K)" by simp
  have nonempty: "set ?K \<noteq> {}" using ne by (simp add: dict_keys_def)
  have m_in: "?m \<in> set ?K" using fin nonempty by (rule Max_in)
  have props: "canonical k \<and> 0 \<le> addr_value k \<and> (\<forall>k'\<in>set ?K. length k' = length k)"
    if "k \<in> set ?K" for k
    using u that unfolding uniform_keys_def list_all_iff by blast
  have "addr_value k \<le> addr_value ?m" if k: "k \<in> set ?K" for k
  proof -
    have "k \<le> ?m" using fin k by (rule Max_ge)
    moreover have "length k = length ?m" using props [OF m_in] k by blast
    ultimately show ?thesis
      using canonical_le_iff [of k ?m] props [OF k] props [OF m_in] by blast
  qed
  with m_in show ?thesis
    unfolding is_numeric_max_key_def list_all_iff by blast
qed

text \<open>
  Claim C9, as amended.  For a block with at least one instruction, \<open>lastaddr\<close> is
  the greatest key of the instruction dictionary in the order of strings, and
  \<open>last_instruction\<close> is an instruction stored under that key.  When the keys are
  canonical addresses of one length, that key is also the key of greatest numeric
  value.
\<close>

theorem lastaddr_string_max:
  assumes "instructions b \<noteq> []"
  shows "lastaddr b = Inr (Max (set (dict_keys (instructions b))))
         \<and> (\<exists>i. last_instruction b = Inr i
                \<and> (Max (set (dict_keys (instructions b))), i) \<in> set (instructions b))
         \<and> (uniform_keys b \<longrightarrow>
                is_numeric_max_key b (Max (set (dict_keys (instructions b)))))"
proof -
  let ?m = "Max (set (dict_keys (instructions b)))"
  have 1: "lastaddr b = Inr ?m" using assms by (rule lastaddr_Max)
  have "?m \<in> set (dict_keys (instructions b))"
    using assms by (intro Max_in) (simp_all add: dict_keys_def)
  then have "map_of (instructions b) ?m \<noteq> None"
    by (simp add: dict_keys_def map_of_eq_None_iff)
  then obtain i where i: "map_of (instructions b) ?m = Some i"
    by blast
  then have "(?m, i) \<in> set (instructions b)" by (rule map_of_SomeD)
  with 1 i have "\<exists>i. last_instruction b = Inr i \<and> (?m, i) \<in> set (instructions b)"
    by (simp add: last_instruction_def)
  with 1 uniform_max_is_numeric_max [OF assms] show ?thesis by blast
qed

lemma c9_uniform: "uniform_keys c9_block_uniform"
  by code_simp

lemma c9_uniform_lastaddr: "lastaddr c9_block_uniform = Inr ''0x400''"
  by code_simp

theorem lastaddr_string_max_witness:
  "instructions c9_block_uniform \<noteq> [] \<and> uniform_keys c9_block_uniform
   \<and> lastaddr c9_block_uniform = Inr ''0x400''
   \<and> is_numeric_max_key c9_block_uniform ''0x400''"
proof -
  have ne: "instructions c9_block_uniform \<noteq> []" by (simp add: c9_block_uniform_def)
  from lastaddr_string_max [OF ne] c9_uniform c9_uniform_lastaddr ne show ?thesis by simp
qed

text \<open>
  Claim C9 as stated fails: in the block with instructions at \<open>0x9\<close> and \<open>0x10\<close>
  the string \<open>0x10\<close> sorts before \<open>0x9\<close>, so \<open>lastaddr\<close> is \<open>0x9\<close>, while the
  key of greatest numeric value is \<open>0x10\<close>.
\<close>

theorem lastaddr_numeric_counterexample:
  "lastaddr c9_block = Inr ''0x9'' \<and> \<not> is_numeric_max_key c9_block ''0x9''
   \<and> is_numeric_max_key c9_block ''0x10''"
  by code_simp

section \<open>Properties of the function relational analysis\<close>

lemma mapM_err_Inr:
  "\<forall>x\<in>set xs. f x = Inr (g x) \<Longrightarrow> mapM_err f xs = Inr (map g xs)"
  by (induction xs) auto

lemma address2_align_canonical:
  assumes "canonical b" "offset fra = Inr d"
  shows "address2_align fra b = Inr (py_hex (addr_value b - d))"
  using assms canonicalD [of b] by (simp add: address2_align_def)

lemma edge2_align_canonical:
  assumes "canonical (fst e)" "canonical (snd e)" "offset fra = Inr d"
  shows "edge2_align fra e = Inr (py_hex (addr_value (fst e) - d), py_hex (addr_value (snd e) - d))"
  using assms by (simp add: edge2_align_def address2_align_canonical)

lemma shift_inj_on:
  "inj_on (\<lambda>b. py_hex (addr_value b - d)) (Collect canonical)"
proof (rule inj_onI)
  fix a b assume "a \<in> Collect canonical" "b \<in> Collect canonical"
    and "py_hex (addr_value a - d) = py_hex (addr_value b - d)"
  then have "canonical a" "canonical b" "addr_value a = addr_value b"
    using py_hex_inj [of "addr_value a - d" "addr_value b - d"] by auto
  then show "a = b" by (rule addr_value_inj)
qed

lemma shift_image_eq_iff:
  assumes A: "A \<subseteq> Collect canonical" and B: "B \<subseteq> Collect canonical"
  shows "((\<lambda>b. py_hex (addr_value b - d)) ` B = A)
         = ((\<lambda>b. addr_value b - d) ` B = addr_value ` A)"
proof -
  have A': "A = py_hex ` addr_value ` A"
  proof -
    have "\<forall>a\<in>A. py_hex (addr_value a) = a" using A canonicalD by auto
    then show ?thesis by (force simp: image_image)
  qed
  have "(\<lambda>b. py_hex (addr_value b - d)) ` B = py_hex ` (\<lambda>b. addr_value b - d) ` B"
    by (simp add: image_image)
  moreover have "inj py_hex" using py_hex_inj by (auto intro: injI)
  ultimately show ?thesis
    using A' by (metis inj_image_eq_iff)
qed

lemma blocks_diff_iff:
  assumes d1: "distinct K1" and d2: "distinct K2"
    and c1: "set K1 \<subseteq> Collect canonical" and c2: "set K2 \<subseteq> Collect canonical"
    and len: "length K1 = length K2"
  shows "(card (set (map (\<lambda>b. py_hex (addr_value b - d)) K2) - set K1) = 0)
         = ((\<lambda>b. addr_value b - d) ` set K2 = addr_value ` set K1)"
proof -
  let ?sh = "\<lambda>b. py_hex (addr_value b - d)"
  have inj: "inj_on ?sh (set K2)"
    using shift_inj_on c2 by (rule inj_on_subset)
  have "card (?sh ` set K2) = card (set K2)" using inj by (rule card_image)
  also have "\<dots> = length K2" using d2 by (rule distinct_card)
  also have "\<dots> = card (set K1)" using d1 len by (simp add: distinct_card)
  finally have cards: "card (?sh ` set K2) = card (set K1)" .
  have "(card (set (map ?sh K2) - set K1) = 0) = (?sh ` set K2 \<subseteq> set K1)"
    by simp
  also have "\<dots> = (?sh ` set K2 = set K1)"
  proof
    assume "?sh ` set K2 \<subseteq> set K1"
    then show "?sh ` set K2 = set K1"
      using cards by (intro card_subset_eq) simp_all
  qed simp
  also have "\<dots> = ((\<lambda>b. addr_value b - d) ` set K2 = addr_value ` set K1)"
    using c1 c2 by (rule shift_image_eq_iff)
  finally show ?thesis .
qed

lemma edges_diff_iff:
  fixes E1 E2 :: "(string \<times> string) set"
  assumes f1: "finite E1" and f2: "finite E2"
    and c1: "\<forall>e\<in>E1. canonical (fst e) \<and> canonical (snd e)"
    and c2: "\<forall>e\<in>E2. canonical (fst e) \<and> canonical (snd e)"
    and cards: "card E1 = card E2"
  shows "(card (E1 - (\<lambda>e. (py_hex (addr_value (fst e) - d), py_hex (addr_value (snd e) - d))) ` E2) = 0)
         = ((\<lambda>e. (addr_value (fst e) - d, addr_value (snd e) - d)) ` E2
              = (\<lambda>e. (addr_value (fst e), addr_value (snd e))) ` E1)"
proof -
  let ?hex = "\<lambda>p :: int \<times> int. (py_hex (fst p), py_hex (snd p))"
  let ?num = "\<lambda>e :: string \<times> string. (addr_value (fst e) - d, addr_value (snd e) - d)"
  let ?val = "\<lambda>e :: string \<times> string. (addr_value (fst e), addr_value (snd e))"
  let ?sh = "\<lambda>e :: string \<times> string. (py_hex (addr_value (fst e) - d), py_hex (addr_value (snd e) - d))"
  have inj_hex: "inj ?hex"
    by (rule injI) (auto simp: prod_eq_iff dest: py_hex_inj)
  have sh: "?sh ` E2 = ?hex ` ?num ` E2"
    by (simp add: image_image)
  have "\<forall>e\<in>E1. ?hex (?val e) = e"
    using c1 canonicalD by (auto simp: prod_eq_iff)
  then have E1: "E1 = ?hex ` ?val ` E1"
    by (force simp: image_image)
  have inj_num: "inj_on ?num E2"
  proof (rule inj_onI)
    fix a b assume "a \<in> E2" "b \<in> E2" "?num a = ?num b"
    then have "canonical (fst a)" "canonical (fst b)" "canonical (snd a)" "canonical (snd b)"
      "addr_value (fst a) = addr_value (fst b)" "addr_value (snd a) = addr_value (snd b)"
      using c2 by auto
    then have "fst a = fst b" "snd a = snd b"
      by (auto intro: addr_value_inj)
    then show "a = b" by (simp add: prod_eq_iff)
  qed
  have "card (?sh ` E2) = card (?num ` E2)"
    unfolding sh using inj_hex by (intro card_image) (rule inj_on_subset, auto)
  also have "\<dots> = card E2" using inj_num by (rule card_image)
  finally have cardsh: "card (?sh ` E2) = card E1" using cards by simp
  have "(card (E1 - ?sh ` E2) = 0) = (E1 \<subseteq> ?sh ` E2)"
    using f1 by simp
  also have "\<dots> = (E1 = ?sh ` E2)"
  proof
    assume "E1 \<subseteq> ?sh ` E2"
    then show "E1 = ?sh ` E2"
      using cardsh f2 by (intro card_subset_eq) simp_all
  qed simp
  also have "\<dots> = (?hex ` ?val ` E1 = ?hex ` ?num ` E2)"
    using E1 sh by simp
  also have "\<dots> = (?val ` E1 = ?num ` E2)"
    using inj_hex by (rule inj_image_eq_iff)
  also have "\<dots> = (?num ` E2 = ?val ` E1)"
    by (rule eq_commute)
  finally show ?thesis .
qed

lemma edges2_aligned_canonical:
  assumes "\<forall>e\<in>edges2 fra. canonical (fst e) \<and> canonical (snd e)" "offset fra = Inr d"
  shows "edges2_aligned fra
         = Inr ((\<lambda>e. (py_hex (addr_value (fst e) - d), py_hex (addr_value (snd e) - d)))
                  ` edges2 fra)"
proof -
  have "\<forall>e\<in>edges2 fra. edge2_align fra e
          = Inr (py_hex (addr_value (fst e) - d), py_hex (addr_value (snd e) - d))"
    using assms by (simp add: edge2_align_canonical)
  then show ?thesis
    by (simp add: edges2_aligned_def)
qed

lemma dict_set_fresh: "k \<notin> set (map fst m) \<Longrightarrow> dict_set k v m = m @ [(k, v)]"
  by (induction m) auto

lemma block_mapping_loop_canonical:
  assumes "offset fra = Inr d"
  shows "\<forall>b\<in>set ks. canonical b \<Longrightarrow> distinct ks \<Longrightarrow> set ks \<inter> set (map fst m) = {} \<Longrightarrow>
         block_mapping_loop fra ks m = Inr (m @ map (\<lambda>b. (b, py_hex (addr_value b + d))) ks)"
proof (induction ks arbitrary: m)
  case Nil
  then show ?case by simp
next
  case (Cons b bs)
  have b: "py_int16 b = Inr (addr_value b)" using Cons.prems canonicalD by simp
  have fresh: "b \<notin> set (map fst m)" using Cons.prems by auto
  let ?m = "m @ [(b, py_hex (addr_value b + d))]"
  have "block_mapping_loop fra bs ?m = Inr (?m @ map (\<lambda>b. (b, py_hex (addr_value b + d))) bs)"
    using Cons.prems by (intro Cons.IH) auto
  then show ?case
    using b assms fresh by (simp add: dict_set_fresh)
qed

lemma map_of_map_key:
  "a \<in> set ks \<Longrightarrow> map_of (map (\<lambda>b. (b, g b)) ks) a = Some (g a)"
  by (induction ks) auto

text \<open>
  Claim C3, as amended.  Take a function pair whose block addresses and edge ends are
  canonical addresses, and let \<open>d\<close> be its offset (the address of the second function
  minus the address of the first).  Then \<open>is_structurally_equivalent\<close> is true exactly
  when the four conditions hold together: the block counts are equal, the edge counts
  are equal, the block addresses of the second function shifted by \<open>-d\<close> are the block
  addresses of the first, and the edges of the second function with both ends shifted
  by \<open>-d\<close> are the edges of the first.  It is false as soon as one of the four fails.
  When it is true, the block mapping of a fresh analysis has the block addresses of the
  first function as its keys and maps every block address \<open>a\<close> to the address of
  value \<open>a + d\<close>.
\<close>

theorem structural_equivalence:
  assumes wf: "fra_wellformed fra" and off: "offset fra = Inr d"
  shows "is_structurally_equivalent fra
           = Inr (length (basic_blocks1 fra) = length (basic_blocks2 fra)
                  \<and> card (edges1 fra) = card (edges2 fra)
                  \<and> shifted_blocks_equal fra d \<and> shifted_edges_equal fra d)
         \<and> (fra_blockmapping fra = [] \<and> is_structurally_equivalent fra = Inr True \<longrightarrow>
              (\<exists>m. block_mapping fra = Inr (m, fra\<lparr>fra_blockmapping := m\<rparr>)
                 \<and> dict_keys m = dict_keys (basic_blocks1 fra)
                 \<and> (\<forall>a\<in>set (dict_keys (basic_blocks1 fra)).
                       map_of m a = Some (py_hex (addr_value a + d))
                       \<and> py_int16 (py_hex (addr_value a + d)) = Inr (addr_value a + d))))"
proof -
  let ?K1 = "dict_keys (basic_blocks1 fra)" and ?K2 = "dict_keys (basic_blocks2 fra)"
  let ?E1 = "edges1 fra" and ?E2 = "edges2 fra"
  let ?sh = "\<lambda>b. py_hex (addr_value b - d)"
  let ?she = "\<lambda>e :: string \<times> string. (py_hex (addr_value (fst e) - d), py_hex (addr_value (snd e) - d))"
  from wf have d1: "distinct ?K1" and d2: "distinct ?K2"
    and f1: "finite ?E1" and f2: "finite ?E2"
    and can: "\<forall>a\<in>fra_addresses fra. canonical a"
    by (simp_all add: fra_wellformed_def)
  have c1: "set ?K1 \<subseteq> Collect canonical" and c2: "set ?K2 \<subseteq> Collect canonical"
    using can by (auto simp: fra_addresses_def)
  have ce1: "\<forall>e\<in>?E1. canonical (fst e) \<and> canonical (snd e)"
    and ce2: "\<forall>e\<in>?E2. canonical (fst e) \<and> canonical (snd e)"
    using can by (auto simp: fra_addresses_def)
  have mapK2: "mapM_err (address2_align fra) ?K2 = Inr (map ?sh ?K2)"
    using c2 off by (intro mapM_err_Inr) (auto simp: address2_align_canonical)
  have al: "edges2_aligned fra = Inr (?she ` ?E2)"
    using ce2 off by (rule edges2_aligned_canonical)
  have len: "(length (basic_blocks1 fra) = length (basic_blocks2 fra)) = (length ?K1 = length ?K2)"
    by (simp add: dict_keys_def)
  have eqv: "is_structurally_equivalent fra
           = Inr (length (basic_blocks1 fra) = length (basic_blocks2 fra)
                  \<and> card ?E1 = card ?E2
                  \<and> shifted_blocks_equal fra d \<and> shifted_edges_equal fra d)"
  proof (cases "length ?K1 = length ?K2 \<and> card ?E1 = card ?E2")
    case False
    then show ?thesis
      using len by (auto simp: is_structurally_equivalent_def)
  next
    case True
    then have lenK: "length ?K1 = length ?K2" and cardE: "card ?E1 = card ?E2" by simp_all
    have B: "(card (set (map ?sh ?K2) - set ?K1) = 0) = shifted_blocks_equal fra d"
      unfolding shifted_blocks_equal_def
      using d1 d2 c1 c2 lenK by (rule blocks_diff_iff)
    have E: "(card (?E1 - ?she ` ?E2) = 0) = shifted_edges_equal fra d"
      unfolding shifted_edges_equal_def
      using f1 f2 ce1 ce2 cardE by (rule edges_diff_iff)
    have "is_structurally_equivalent fra
            = (if card (set (map ?sh ?K2) - set ?K1) = 0
               then Inr (card (?E1 - ?she ` ?E2) = 0) else Inr False)"
      using True len by (simp add: is_structurally_equivalent_def mapK2 al Let_def)
    then show ?thesis
      using True len B E by auto
  qed
  have bm: "\<exists>m. block_mapping fra = Inr (m, fra\<lparr>fra_blockmapping := m\<rparr>)
                 \<and> dict_keys m = ?K1
                 \<and> (\<forall>a\<in>set ?K1. map_of m a = Some (py_hex (addr_value a + d))
                       \<and> py_int16 (py_hex (addr_value a + d)) = Inr (addr_value a + d))"
    if empty: "fra_blockmapping fra = []" and true: "is_structurally_equivalent fra = Inr True"
  proof -
    let ?m = "map (\<lambda>b. (b, py_hex (addr_value b + d))) ?K1"
    have loop: "block_mapping_loop fra ?K1 [] = Inr ([] @ ?m)"
      using off c1 d1 by (intro block_mapping_loop_canonical) auto
    have "block_mapping fra = Inr (?m, fra\<lparr>fra_blockmapping := ?m\<rparr>)"
      using empty true loop by (simp add: block_mapping_def)
    moreover have "dict_keys ?m = ?K1"
      by (simp add: dict_keys_def comp_def)
    moreover have "\<forall>a\<in>set ?K1. map_of ?m a = Some (py_hex (addr_value a + d))"
      by (simp add: map_of_map_key)
    ultimately show ?thesis
      using py_int16_py_hex by blast
  qed
  from eqv bm show ?thesis by blast
qed

lemma canonical_examples:
  "canonical ''0x400''" "canonical ''0x410''" "canonical ''0x500''" "canonical ''0x510''"
  by code_simp+

lemma fra_ab_wellformed: "fra_wellformed fra_ab"
  by (simp add: fra_wellformed_def fra_addresses_def fra_ab_def FunctionRelationalAnalysis_init_def
      basic_blocks1_def basic_blocks2_def edges1_def edges2_def fn_a_def fn_b_def dict_keys_def
      canonical_examples)

lemma fra_ab_offset: "offset fra_ab = Inr 256"
  by code_simp

lemma fra_ab_equivalent: "is_structurally_equivalent fra_ab = Inr True"
  by code_simp

theorem structural_equivalence_witness:
  "fra_wellformed fra_ab \<and> offset fra_ab = Inr 256
   \<and> is_structurally_equivalent fra_ab = Inr True
   \<and> fst (projr (block_mapping fra_ab)) = [(''0x400'', ''0x500''), (''0x410'', ''0x510'')]"
proof -
  have m: "block_mapping fra_ab
       = Inr ([(''0x400'', ''0x500''), (''0x410'', ''0x510'')],
              fra_ab\<lparr>fra_blockmapping := [(''0x400'', ''0x500''), (''0x410'', ''0x510'')]\<rparr>)"
    by code_simp
  from structural_equivalence [OF fra_ab_wellformed fra_ab_offset] fra_ab_wellformed fra_ab_offset
    fra_ab_equivalent m
  show ?thesis by simp
qed

text \<open>
  Claim C3 as stated fails: a function pair need not have addresses that
  \<open>int(_, 16)\<close> reads.  For the function with a block at the context-prefixed address
  \<open>F0x400_0x410\<close>, compared with itself (the same graph, offset \<open>0\<close>),
  \<open>is_structurally_equivalent\<close> is neither true nor false: it raises \<open>ValueError\<close>.
\<close>

theorem structural_equivalence_counterexample:
  "offset fra_pp = Inr 0
   \<and> basic_blocks1 fra_pp = basic_blocks2 fra_pp \<and> edges1 fra_pp = edges2 fra_pp
   \<and> is_structurally_equivalent fra_pp = Inl ValueError"
  by code_simp

section \<open>Properties of the relational analysis of two binaries\<close>

lemma map_fst_dict_set_list:
  "map fst (dict_set k v m) = (if k \<in> set (map fst m) then map fst m else map fst m @ [k])"
  by (induction m) (force simp: image_iff)+

lemma map_fst_dict_set: "set (map fst (dict_set k v m)) = insert k (set (map fst m))"
  unfolding map_fst_dict_set_list by auto

lemma dict_keys_dict_set: "set (dict_keys (dict_set k v m)) = insert k (set (dict_keys m))"
  using map_fst_dict_set [of k v m] by (simp add: dict_keys_def)

lemma dict_keys_Nil: "dict_keys [] = []"
  by (simp add: dict_keys_def)

lemma map_of_dict_set: "map_of (dict_set k v m) = (map_of m)(k \<mapsto> v)"
  by (induction m) (auto simp: fun_eq_iff)

lemma dict_keys_pair_loop:
  "set (dict_keys (pair_loop ps r)) = fst ` set ps \<union> set (dict_keys r)"
  by (induction ps r rule: pair_loop.induct) (auto simp: dict_keys_dict_set)

lemma map_of_pair_loop_old:
  "a \<notin> fst ` set ps \<Longrightarrow> map_of (pair_loop ps r) a = map_of r a"
  by (induction ps r rule: pair_loop.induct) (auto simp: map_of_dict_set)

lemma map_of_pair_loop_zip:
  "distinct xs \<Longrightarrow> i < length xs \<Longrightarrow> i < length ys \<Longrightarrow>
   map_of (pair_loop (zip xs ys) r) (xs ! i) = Some (ys ! i)"
proof (induction xs arbitrary: ys i r)
  case Nil
  then show ?case by simp
next
  case (Cons x xs)
  then obtain y ys' where ys: "ys = y # ys'" by (cases ys) auto
  show ?case
  proof (cases i)
    case 0
    have "x \<notin> fst ` set (zip xs ys')"
      using Cons.prems(1) by (auto dest: set_zip_leftD)
    then have "map_of (pair_loop (zip xs ys') (dict_set x y r)) x = Some y"
      by (simp add: map_of_pair_loop_old map_of_dict_set)
    with 0 ys show ?thesis by simp
  next
    case (Suc j)
    with Cons.prems ys have "map_of (pair_loop (zip xs ys') (dict_set x y r)) (xs ! j) = Some (ys' ! j)"
      by (intro Cons.IH) auto
    with Suc ys show ?thesis by simp
  qed
qed

lemma dict_keys_identity_loop:
  "set (dict_keys (identity_loop as r)) = set as \<union> set (dict_keys r)"
  by (induction as r rule: identity_loop.induct) (auto simp: dict_keys_dict_set)

lemma map_of_identity_loop_old:
  "a \<in> set (dict_keys r) \<Longrightarrow> map_of (identity_loop as r) a = map_of r a"
  by (induction as r rule: identity_loop.induct) (auto simp: map_of_dict_set dict_keys_dict_set)

lemma map_of_identity_loop_new:
  "a \<notin> set (dict_keys r) \<Longrightarrow> a \<in> set as \<Longrightarrow> map_of (identity_loop as r) a = Some a"
proof (induction as r rule: identity_loop.induct)
  case (1 result)
  then show ?case by simp
next
  case (2 k1 as result)
  show ?case
  proof (cases "a = k1")
    case True
    with 2 have "map_of (identity_loop as (dict_set k1 k1 result)) a
        = map_of (dict_set k1 k1 result) a"
      by (intro map_of_identity_loop_old) (simp add: dict_keys_dict_set)
    with True 2 show ?thesis by (simp add: map_of_dict_set)
  next
    case False
    with 2 show ?thesis by (auto simp: dict_keys_dict_set)
  qed
qed

lemma set_sorted_difference: "set (sorted_difference xs ys) = set xs - set ys"
  by (auto simp: sorted_difference_def)

lemma distinct_sorted_difference: "distinct (sorted_difference xs ys)"
  by (simp add: sorted_difference_def)

lemma direct_function_mapping_keys:
  "set (dict_keys (direct_function_mapping f1 f2)) = set f1"
proof -
  have "fst ` set (zip (sorted_difference f1 f2) (sorted_difference f2 f1)) \<subseteq> set f1"
    by (auto dest!: set_zip_leftD simp: set_sorted_difference)
  then show ?thesis
    by (auto simp: direct_function_mapping_def Let_def dict_keys_identity_loop
        dict_keys_pair_loop dict_keys_Nil)
qed

lemma direct_function_mapping_common:
  assumes "a \<in> set f1" "a \<in> set f2"
  shows "map_of (direct_function_mapping f1 f2) a = Some a"
proof -
  let ?r = "pair_loop (zip (sorted_difference f1 f2) (sorted_difference f2 f1)) []"
  have "a \<notin> fst ` set (zip (sorted_difference f1 f2) (sorted_difference f2 f1))"
    using assms by (auto dest!: set_zip_leftD simp: set_sorted_difference)
  then have "a \<notin> set (dict_keys ?r)"
    by (simp add: dict_keys_pair_loop dict_keys_Nil)
  then have "map_of (identity_loop f1 ?r) a = Some a"
    using assms(1) by (rule map_of_identity_loop_new)
  then show ?thesis by (simp add: direct_function_mapping_def Let_def)
qed

text \<open>
  The addresses that are in one list only are paired by their place in the two sorted
  lists of such addresses.
\<close>

lemma direct_function_mapping_positional:
  assumes "i < length (sorted_difference f1 f2)" "i < length (sorted_difference f2 f1)"
  shows "map_of (direct_function_mapping f1 f2) (sorted_difference f1 f2 ! i)
         = Some (sorted_difference f2 f1 ! i)"
proof -
  let ?d1 = "sorted_difference f1 f2" and ?d2 = "sorted_difference f2 f1"
  let ?r = "pair_loop (zip ?d1 ?d2) []"
  have r: "map_of ?r (?d1 ! i) = Some (?d2 ! i)"
    using distinct_sorted_difference assms by (rule map_of_pair_loop_zip)
  then have "?d1 ! i \<in> set (dict_keys ?r)"
    by (metis dict_keys_def map_of_eq_None_iff option.distinct(1) set_map)
  then have "map_of (identity_loop f1 ?r) (?d1 ! i) = map_of ?r (?d1 ! i)"
    by (rule map_of_identity_loop_old)
  with r show ?thesis by (simp add: direct_function_mapping_def Let_def)
qed

text \<open>
  Claim C2, as amended.  \<open>function_mapping\<close> returns the memoized mapping as it is
  when that is not empty, before it looks at the lengths of the address lists or at
  callgraph matching.  The constructor leaves the memoized mapping empty and does not
  put the user's mapping there.  So for a freshly built analysis with address lists of
  equal length the mapping is the direct one, whatever the user's mapping: its keys are
  the addresses of the first list and every address in both lists maps to itself.
  With lists of different lengths the mapping is the one callgraph matching returns
  when seeded with the user's mapping.
\<close>

theorem function_mapping_strategies:
  "(ra_functionmapping ra \<noteq> [] \<longrightarrow> function_mapping cgm ra = (ra_functionmapping ra, ra))
   \<and> ra_functionmapping (RelationalAnalysis_init a1 a2 f1 f2 um cs) = []
   \<and> (length (ra_faddrs1 (RelationalAnalysis_init a1 a2 f1 f2 um cs))
        = length (ra_faddrs2 (RelationalAnalysis_init a1 a2 f1 f2 um cs)) \<longrightarrow>
        fst (function_mapping cgm (RelationalAnalysis_init a1 a2 f1 f2 um cs))
          = direct_function_mapping (ra_faddrs1 (RelationalAnalysis_init a1 a2 f1 f2 um cs))
              (ra_faddrs2 (RelationalAnalysis_init a1 a2 f1 f2 um cs))
        \<and> fst (function_mapping cgm (RelationalAnalysis_init a1 a2 f1 f2 um cs))
          = fst (function_mapping cgm (RelationalAnalysis_init a1 a2 f1 f2 um' cs))
        \<and> set (dict_keys (fst (function_mapping cgm (RelationalAnalysis_init a1 a2 f1 f2 um cs))))
          = set (ra_faddrs1 (RelationalAnalysis_init a1 a2 f1 f2 um cs))
        \<and> (\<forall>a \<in> set (ra_faddrs1 (RelationalAnalysis_init a1 a2 f1 f2 um cs))
                  \<inter> set (ra_faddrs2 (RelationalAnalysis_init a1 a2 f1 f2 um cs)).
              map_of (fst (function_mapping cgm (RelationalAnalysis_init a1 a2 f1 f2 um cs))) a
                = Some a))
   \<and> (length (ra_faddrs1 (RelationalAnalysis_init a1 a2 f1 f2 um cs))
        \<noteq> length (ra_faddrs2 (RelationalAnalysis_init a1 a2 f1 f2 um cs)) \<longrightarrow>
        fst (function_mapping cgm (RelationalAnalysis_init a1 a2 f1 f2 um cs))
          = cgm a1 (ra_faddrs1 (RelationalAnalysis_init a1 a2 f1 f2 um cs))
              a2 (ra_faddrs2 (RelationalAnalysis_init a1 a2 f1 f2 um cs)) um)"
proof -
  let ?ra = "RelationalAnalysis_init a1 a2 f1 f2 um cs"
  let ?ra' = "RelationalAnalysis_init a1 a2 f1 f2 um' cs"
  have same: "ra_faddrs1 ?ra' = ra_faddrs1 ?ra" "ra_faddrs2 ?ra' = ra_faddrs2 ?ra"
    by (simp_all add: RelationalAnalysis_init_def)
  have fresh: "ra_functionmapping ?ra = []" "ra_functionmapping ?ra' = []"
    by (simp_all add: RelationalAnalysis_init_def)
  have apps: "ra_app1 ?ra = a1" "ra_app2 ?ra = a2" "ra_usermapping ?ra = um"
    by (simp_all add: RelationalAnalysis_init_def)
  have 1: "ra_functionmapping ra \<noteq> [] \<longrightarrow> function_mapping cgm ra = (ra_functionmapping ra, ra)"
    by (simp add: function_mapping_def)
  have 2: "fst (function_mapping cgm ?ra) = direct_function_mapping (ra_faddrs1 ?ra) (ra_faddrs2 ?ra)"
    and 3: "fst (function_mapping cgm ?ra') = direct_function_mapping (ra_faddrs1 ?ra) (ra_faddrs2 ?ra)"
    if "length (ra_faddrs1 ?ra) = length (ra_faddrs2 ?ra)"
    using that fresh same
    by (simp_all add: function_mapping_def fncount1_def fncount2_def Let_def)
  have 4: "fst (function_mapping cgm ?ra) = cgm a1 (ra_faddrs1 ?ra) a2 (ra_faddrs2 ?ra) um"
    if "length (ra_faddrs1 ?ra) \<noteq> length (ra_faddrs2 ?ra)"
    using that fresh apps
    by (simp add: function_mapping_def fncount1_def fncount2_def Let_def)
  show ?thesis
    using 1 fresh(1) 2 3 4 direct_function_mapping_keys direct_function_mapping_common
    by (simp del: Int_iff) (metis IntD1 IntD2)
qed

lemma ra_c2_mapping:
  "fst (function_mapping cgm_seed ra_c2) = [(''0x200'', ''0x300''), (''0x100'', ''0x100'')]"
  by code_simp

theorem function_mapping_strategies_witness:
  "length (ra_faddrs1 ra_c2) = length (ra_faddrs2 ra_c2)
   \<and> fst (function_mapping cgm_seed ra_c2) = [(''0x200'', ''0x300''), (''0x100'', ''0x100'')]
   \<and> set (dict_keys (fst (function_mapping cgm_seed ra_c2))) = {''0x100'', ''0x200''}
   \<and> length (ra_faddrs1 ra_c2_short) \<noteq> length (ra_faddrs2 ra_c2_short)
   \<and> fst (function_mapping cgm_seed ra_c2_short) = [(''0x100'', ''0x300'')]
   \<and> ra_functionmapping ra_c2_memo \<noteq> []
   \<and> fst (function_mapping cgm_seed ra_c2_memo) = [(''0x100'', ''0x200'')]"
proof -
  have len: "length (ra_faddrs1 ra_c2) = length (ra_faddrs2 ra_c2)"
    by (simp add: ra_c2_def RelationalAnalysis_init_def)
  have f1: "set (ra_faddrs1 ra_c2) = {''0x100'', ''0x200''}"
    by (simp add: ra_c2_def RelationalAnalysis_init_def)
  note inst = function_mapping_strategies [of ra_c2_memo cgm_seed big big "[''0x100'', ''0x200'']"
      "[''0x100'', ''0x300'']" "[(''0x100'', ''0x300'')]" "[]" "[]", folded ra_c2_def]
  from inst len
  have keys: "set (dict_keys (fst (function_mapping cgm_seed ra_c2))) = set (ra_faddrs1 ra_c2)"
    by blast
  have memo: "ra_functionmapping ra_c2_memo = [(''0x100'', ''0x200'')]"
    by (simp add: ra_c2_memo_def)
  with inst have m: "fst (function_mapping cgm_seed ra_c2_memo) = [(''0x100'', ''0x200'')]"
    by simp
  note inst2 = function_mapping_strategies [of ra_c2_memo cgm_seed big big "[''0x100'', ''0x200'']"
      "[''0x100'']" "[(''0x100'', ''0x300'')]" "[]" "[]", folded ra_c2_short_def]
  have len2: "length (ra_faddrs1 ra_c2_short) \<noteq> length (ra_faddrs2 ra_c2_short)"
    by (simp add: ra_c2_short_def RelationalAnalysis_init_def)
  with inst2 have s: "fst (function_mapping cgm_seed ra_c2_short) = [(''0x100'', ''0x300'')]"
    by (simp add: cgm_seed_def)
  from keys len f1 ra_c2_mapping memo m len2 s show ?thesis by simp
qed

text \<open>
  Claim C2 as stated fails: with the non-empty user mapping that sends \<open>0x100\<close> to
  \<open>0x300\<close> and two address lists of equal length, the computed mapping is the direct
  one, which sends \<open>0x100\<close> to itself, and not the user's mapping.
\<close>

theorem function_mapping_user_counterexample:
  "ra_usermapping ra_c2 = [(''0x100'', ''0x300'')]
   \<and> fst (function_mapping cgm_seed ra_c2) = [(''0x200'', ''0x300''), (''0x100'', ''0x100'')]"
  by code_simp

text \<open>
  Claim C1 fails on the code.  The function at \<open>0x200\<close> is in both hash tables with
  different hashes.  When the second loop of \<open>functions_changed\<close> is entered with the
  variable \<open>faddr\<close> of the first loop at \<open>0x100\<close> and \<open>0x100\<close> in the result, it
  tests that stale variable, skips every function and returns \<open>0x100\<close> alone, without
  a warning.  When no function is mapped the variable is unbound and the call raises
  \<open>UnboundLocalError\<close>.  When a function is mapped the call does not reach the
  loops: building the analysis raises \<open>TypeError\<close>.
\<close>

theorem functions_changed_misses_function:
  "map_of (md5s1 ra_c1) ''0x200'' = Some ''bb'' \<and> map_of (md5s2 ra_c1) ''0x200'' = Some ''cc''
   \<and> md5_loop (Some ''0x100'') (md5s2 ra_c1) (md5s1 ra_c1) [''0x100''] []
       = Inr ([''0x100''], [])
   \<and> functions_changed cgm_none ra_c1_unmapped = Inl (UnboundLocalError ''faddr'')
   \<and> functions_changed cgm_seed ra_c1
       = Inl (TypeError ''FunctionRelationalAnalysis.__init__'')"
  by code_simp

section \<open>Properties of the lowering to AST lvalues\<close>

text \<open>
  Claim C6, as amended.  For a stack variable at the constant offset \<open>k\<close>, lowering
  with access size 2 gives exactly two stack-slot lvalues, the first at offset \<open>k\<close>
  and the second at offset \<open>k + 1\<close>, both built with the type the caller gave; they
  are one byte wide exactly when that type is.  Any other access size gives the single
  stack-slot lvalue at offset \<open>k\<close>.
\<close>

theorem stack_variable_split:
  "stack_variable_to_ast_lvals (ConstantValueOffset k) 2 ctype
     = [StackVariableLval k ctype, StackVariableLval (k + 1) ctype]
   \<and> (sz \<noteq> 2 \<longrightarrow>
        stack_variable_to_ast_lvals (ConstantValueOffset k) sz ctype = [StackVariableLval k ctype])
   \<and> (ctype = Some t \<longrightarrow>
        list_all (one_byte_lval size_of)
            (stack_variable_to_ast_lvals (ConstantValueOffset k) 2 ctype)
          = (size_of t = 1))"
  by (auto simp: stack_variable_to_ast_lvals_def one_byte_lval_def)

theorem stack_variable_split_witness:
  "(4::int) \<noteq> 2
   \<and> stack_variable_to_ast_lvals (ConstantValueOffset 8) 4 (Some CChar8)
       = [StackVariableLval 8 (Some CChar8)]
   \<and> stack_variable_to_ast_lvals (ConstantValueOffset 8) 2 (Some CChar8)
       = [StackVariableLval 8 (Some CChar8), StackVariableLval 9 (Some CChar8)]
   \<and> list_all (one_byte_lval c_scalar_size)
        (stack_variable_to_ast_lvals (ConstantValueOffset 8) 2 (Some CChar8))"
  using stack_variable_split [of 8 "Some CChar8" 4 CChar8 c_scalar_size]
  by (simp add: one_byte_lval_def)

text \<open>
  Claim C6 as stated fails: lowering a 2-byte access at offset \<open>8\<close> with the 2-byte
  type \<open>CShort16\<close> gives two slots of that 2-byte type, at offsets \<open>8\<close> and \<open>9\<close>;
  neither is a 1-byte lvalue.
\<close>

theorem stack_variable_split_counterexample:
  "stack_variable_to_ast_lvals (ConstantValueOffset 8) 2 (Some CShort16)
     = [StackVariableLval 8 (Some CShort16), StackVariableLval 9 (Some CShort16)]
   \<and> c_scalar_size CShort16 = 2
   \<and> \<not> one_byte_lval c_scalar_size (StackVariableLval 8 (Some CShort16))
   \<and> \<not> one_byte_lval c_scalar_size (StackVariableLval 9 (Some CShort16))"
  by (simp add: stack_variable_to_ast_lvals_def one_byte_lval_def)

lemma locindices_loop_result:
  "locindices_loop glf vs (A, L, fo)
     = (A \<union> (\<lambda>v. argindex (formal_of glf v)) ` set vs,
        L \<union> \<Union> (locindices_of glf ` set vs),
        if vs = [] then fo else Some (formal_of glf (last vs)))"
proof (induction vs arbitrary: A L fo)
  case Nil
  then show ?case by simp
next
  case (Cons v vs)
  obtain f ls where g: "glf (argument_index v) = (f, ls)" by (cases "glf (argument_index v)")
  then have fv: "formal_of glf v = f" "locindices_of glf v = set ls"
    by (simp_all add: formal_of_def locindices_of_def)
  show ?case
    using g fv Cons.IH [of "insert (argindex f) A" "L \<union> set ls" "Some f"]
    by auto
qed

lemma card_interval_int: "card {0 ..< int n} = n"
  by simp

lemma merge_when_covered:
  assumes "covers_formal glf vs f"
  shows "vinitregister_value_list_to_ast_lvals glf vs = [FormalLval f]"
proof -
  from assms have ne: "vs \<noteq> []"
    and args: "list_all is_argument_value vs"
    and fs: "\<forall>v\<in>set vs. formal_of glf v = f"
    and cov: "\<Union> (locindices_of glf ` set vs) = {0 ..< int (length (arglocs f))}"
    by (auto simp: covers_formal_def list_all_iff)
  from ne fs have img: "(\<lambda>v. argindex (formal_of glf v)) ` set vs = {argindex f}"
    by (cases vs) auto
  from ne fs have lastf: "formal_of glf (last vs) = f" by simp
  have "locindices_loop glf vs ({}, {}, None)
          = ({argindex f}, {0 ..< int (length (arglocs f))}, Some f)"
    using ne img cov lastf by (simp add: locindices_loop_result)
  then show ?thesis
    using args by (simp add: vinitregister_value_list_to_ast_lvals_def)
qed

lemma covered_when_merged:
  assumes wf: "formals_wellformed glf vs"
    and args: "list_all is_argument_value vs"
    and c1: "card ((\<lambda>v. argindex (formal_of glf v)) ` set vs) = 1"
    and c2: "card (\<Union> (locindices_of glf ` set vs))
               = length (arglocs (formal_of glf (last vs)))"
  shows "covers_formal glf vs (formal_of glf (last vs))"
proof -
  let ?f = "formal_of glf (last vs)"
  from c1 have ne: "vs \<noteq> []" by auto
  then have lastin: "last vs \<in> set vs" by simp
  from c1 obtain i where i: "(\<lambda>v. argindex (formal_of glf v)) ` set vs = {i}"
    by (auto simp: card_1_singleton_iff)
  then have "\<And>v. v \<in> set vs \<Longrightarrow> argindex (formal_of glf v) \<in> {i}"
    by (metis imageI)
  then have same_ix: "\<forall>v\<in>set vs. argindex (formal_of glf v) = argindex ?f"
    using lastin by simp
  have same: "\<forall>v\<in>set vs. formal_of glf v = ?f"
  proof
    fix v assume v: "v \<in> set vs"
    from wf lastin v have "argindex (formal_of glf v) = argindex ?f \<longrightarrow> formal_of glf v = ?f"
      unfolding formals_wellformed_def list_all_iff by blast
    with same_ix v show "formal_of glf v = ?f" by blast
  qed
  have sub: "\<Union> (locindices_of glf ` set vs) \<subseteq> {0 ..< int (length (arglocs ?f))}"
  proof
    fix x assume "x \<in> \<Union> (locindices_of glf ` set vs)"
    then obtain v where v: "v \<in> set vs" "x \<in> locindices_of glf v" by auto
    from wf v(1) have "locindices_of glf v \<subseteq> {0 ..< int (length (arglocs (formal_of glf v)))}"
      unfolding formals_wellformed_def list_all_iff by blast
    with v(2) have "x \<in> {0 ..< int (length (arglocs (formal_of glf v)))}"
      by (rule rev_subsetD)
    moreover from same v(1) have "formal_of glf v = ?f" by blast
    ultimately show "x \<in> {0 ..< int (length (arglocs ?f))}" by (simp only:)
  qed
  have cov: "\<Union> (locindices_of glf ` set vs) = {0 ..< int (length (arglocs ?f))}"
    using sub c2 by (intro card_subset_eq) simp_all
  have "list_all (\<lambda>v. is_argument_value v \<and> formal_of glf v = ?f) vs"
    using args same unfolding list_all_iff by blast
  with ne cov show ?thesis
    unfolding covers_formal_def by (simp only: set_map simp_thms)
qed

text \<open>
  Claim C7.  Let \<open>get_formal_locindices\<close> be well-formed on the list.  When every
  variable of the list is an argument value of one formal and the location indices of
  the variables together are all the location indices of that formal, lowering the list
  gives exactly one lvalue, the one of the formal.  When there is no formal for which
  this holds (an element is not an argument value, two elements belong to different
  formals, or a location is not covered), lowering gives one register lvalue for each
  variable of the list.
\<close>

theorem register_list_merge:
  assumes "formals_wellformed glf vs"
  shows "(covers_formal glf vs f \<longrightarrow>
            vinitregister_value_list_to_ast_lvals glf vs = [FormalLval f])
         \<and> ((\<forall>g. \<not> covers_formal glf vs g) \<longrightarrow>
            vinitregister_value_list_to_ast_lvals glf vs
              = map (\<lambda>v. RegisterVariableLval (register_name v)) vs)"
proof (intro conjI impI)
  assume "covers_formal glf vs f"
  then show "vinitregister_value_list_to_ast_lvals glf vs = [FormalLval f]"
    by (rule merge_when_covered)
next
  assume none: "\<forall>g. \<not> covers_formal glf vs g"
  let ?fallback = "map (\<lambda>v. RegisterVariableLval (register_name v)) vs"
  let ?A = "(\<lambda>v. argindex (formal_of glf v)) ` set vs"
  let ?L = "\<Union> (locindices_of glf ` set vs)"
  have loop: "locindices_loop glf vs ({}, {}, None)
          = (?A, ?L, if vs = [] then None else Some (formal_of glf (last vs)))"
    by (simp add: locindices_loop_result)
  show "vinitregister_value_list_to_ast_lvals glf vs = ?fallback"
  proof (cases "list_all is_argument_value vs \<and> card ?A = 1
                 \<and> card ?L = length (arglocs (formal_of glf (last vs)))")
    case True
    then have "covers_formal glf vs (formal_of glf (last vs))"
      using assms by (intro covered_when_merged) simp_all
    with none show ?thesis by blast
  next
    case False
    then show ?thesis
      unfolding vinitregister_value_list_to_ast_lvals_def Let_def loop
      by (auto split: option.splits)
  qed
qed
lemma interval_two: "{0 ..< (2::int)} = {0, 1}"
  by auto

lemma pair_wellformed: "formals_wellformed glf_pair [v_r0, v_r1]"
  by (simp add: formals_wellformed_def formal_of_def locindices_of_def glf_pair_def
      v_r0_def v_r1_def formal64_def interval_two)

lemma pair_covers: "covers_formal glf_pair [v_r0, v_r1] formal64"
  by (simp add: covers_formal_def formal_of_def locindices_of_def glf_pair_def
      v_r0_def v_r1_def formal64_def interval_two insert_commute)

lemma single_wellformed: "formals_wellformed glf_pair [v_r0]"
  by (simp add: formals_wellformed_def formal_of_def locindices_of_def glf_pair_def
      v_r0_def formal64_def interval_two)

lemma single_not_covered: "\<not> covers_formal glf_pair [v_r0] g"
  by (auto simp: covers_formal_def formal_of_def locindices_of_def glf_pair_def
      v_r0_def formal64_def interval_two)

theorem register_list_merge_witness:
  "formals_wellformed glf_pair [v_r0, v_r1] \<and> covers_formal glf_pair [v_r0, v_r1] formal64
   \<and> (vinitregister_value_list_to_ast_lvals glf_pair [v_r0, v_r1] :: unit ast_lval list)
       = [FormalLval formal64]
   \<and> formals_wellformed glf_pair [v_r0] \<and> (\<forall>g. \<not> covers_formal glf_pair [v_r0] g)
   \<and> (vinitregister_value_list_to_ast_lvals glf_pair [v_r0] :: unit ast_lval list)
       = [RegisterVariableLval ''R0'']"
proof -
  have a: "(vinitregister_value_list_to_ast_lvals glf_pair [v_r0, v_r1] :: unit ast_lval list)
             = [FormalLval formal64]"
    using register_list_merge [OF pair_wellformed] pair_covers by blast
  have "(vinitregister_value_list_to_ast_lvals glf_pair [v_r0] :: unit ast_lval list)
          = map (\<lambda>v. RegisterVariableLval (register_name v)) [v_r0]"
    using register_list_merge [OF single_wellformed] single_not_covered by blast
  then have b: "(vinitregister_value_list_to_ast_lvals glf_pair [v_r0] :: unit ast_lval list)
                  = [RegisterVariableLval ''R0'']"
    by (simp add: v_r0_def)
  from a b pair_wellformed pair_covers single_wellformed single_not_covered
  show ?thesis by simp
qed

section \<open>Properties of the simulate steps\<close>

lemma symbol_not_literal: "is_symbol v \<Longrightarrow> \<not> is_literal v"
  by (cases v) simp_all

lemma symbol_defined: "is_symbol v \<Longrightarrow> \<not> is_undefined v"
  by (cases v) (simp_all add: is_undefined_def)

lemma written_value:
  "assign_and_advance st dstop v = Inr st' \<Longrightarrow> operand_values st' dstop = v"
  by (auto simp: assign_and_advance_def simstate_set_def increment_programcounter_def)

text \<open>
  Claim C8, as amended.  When an operand of SUBU holds a symbol, the step raises the
  symbolic-expression signal, unless an operand is undefined, in which case it writes
  the undefined double word.  When the second source of ADDU holds a symbol, the step
  does not raise: it writes a new symbol, named after the old one, to the destination;
  when only the first source holds a symbol it raises the symbolic-expression signal.
  When an operand of ROR holds a symbol the step raises a simulation error.  In none of
  these cases is a defined literal written to the destination.
\<close>

theorem simulate_symbol_operands:
  "(is_symbol (rhs st (src1_operand opc)) \<or> is_symbol (rhs st (src2_operand opc)) \<longrightarrow>
      MIPSSubtractUnsigned_simulate ops opc ia st
        = (if is_undefined (rhs st (src1_operand opc)) \<or> is_undefined (rhs st (src2_operand opc))
           then assign_and_advance st (dst_operand opc) simUndefinedDW
           else Inl (CHBSymbolicExpression ia (dst_operand opc)
                  (sv_str ops (rhs st (src1_operand opc)) @ '' - ''
                     @ sv_str ops (rhs st (src2_operand opc)))))
      \<and> (\<forall>st'. MIPSSubtractUnsigned_simulate ops opc ia st = Inr st' \<longrightarrow>
             \<not> concrete_result (operand_values st' (dst_operand opc))))
   \<and> (is_symbol (rhs st (src2_operand opc)) \<longrightarrow>
      MIPSAddUnsigned_simulate ops opc ia st
        = assign_and_advance st (dst_operand opc)
            (SimSymbol (symbol_name (rhs st (src2_operand opc)) @ '':add ''
               @ sv_str ops (rhs st (src1_operand opc)))))
   \<and> (is_symbol (rhs st (src1_operand opc)) \<and> \<not> is_symbol (rhs st (src2_operand opc)) \<longrightarrow>
      MIPSAddUnsigned_simulate ops opc ia st
        = Inl (CHBSymbolicExpression ia (dst_operand opc)
                 (sv_str ops (rhs st (src1_operand opc)) @ '' + ''
                    @ sv_str ops (rhs st (src2_operand opc)))))
   \<and> (is_symbol (rhs st (src1_operand opc)) \<or> is_symbol (rhs st (src2_operand opc)) \<longrightarrow>
      (\<forall>st'. MIPSAddUnsigned_simulate ops opc ia st = Inr st' \<longrightarrow>
             \<not> concrete_result (operand_values st' (dst_operand opc))))
   \<and> (is_symbol (rhs st (x86_dst_operand xopc)) \<or> is_symbol (rhs st (x86_src_operand xopc)) \<longrightarrow>
      (\<exists>msg. X86RotateRight_simulate ops xopc ia st = Inl (CHBSimError ia msg)))"
proof -
  let ?v1 = "rhs st (src1_operand opc)" and ?v2 = "rhs st (src2_operand opc)"
  let ?d = "dst_operand opc"
  have sub_eq: "MIPSSubtractUnsigned_simulate ops opc ia st
        = (if is_undefined ?v1 \<or> is_undefined ?v2
           then assign_and_advance st ?d simUndefinedDW
           else Inl (CHBSymbolicExpression ia ?d (sv_str ops ?v1 @ '' - '' @ sv_str ops ?v2)))"
    if "is_symbol ?v1 \<or> is_symbol ?v2"
    using that by (simp add: MIPSSubtractUnsigned_simulate_def Let_def)
  have sub_safe: "\<not> concrete_result (operand_values st' ?d)"
    if "is_symbol ?v1 \<or> is_symbol ?v2" and r: "MIPSSubtractUnsigned_simulate ops opc ia st = Inr st'"
    for st'
  proof (cases "is_undefined ?v1 \<or> is_undefined ?v2")
    case True
    with sub_eq [OF that(1)] r
    have "assign_and_advance st ?d simUndefinedDW = Inr st'" by simp
    then have "operand_values st' ?d = simUndefinedDW" by (rule written_value)
    then show ?thesis by (simp add: concrete_result_def simUndefinedDW_def)
  next
    case False
    with sub_eq [OF that(1)] r show ?thesis by simp
  qed
  have add2: "MIPSAddUnsigned_simulate ops opc ia st
        = assign_and_advance st ?d (SimSymbol (symbol_name ?v2 @ '':add '' @ sv_str ops ?v1))"
    if "is_symbol ?v2"
    using that by (simp add: MIPSAddUnsigned_simulate_def Let_def mk_symbol_def)
  have add1: "MIPSAddUnsigned_simulate ops opc ia st
        = Inl (CHBSymbolicExpression ia ?d (sv_str ops ?v1 @ '' + '' @ sv_str ops ?v2))"
    if "is_symbol ?v1 \<and> \<not> is_symbol ?v2"
    using that by (simp add: MIPSAddUnsigned_simulate_def Let_def)
  have add_safe: "\<not> concrete_result (operand_values st' ?d)"
    if s: "is_symbol ?v1 \<or> is_symbol ?v2" and r: "MIPSAddUnsigned_simulate ops opc ia st = Inr st'"
    for st'
  proof (cases "is_symbol ?v2")
    case True
    from add2 [OF True] r
    have "operand_values st' ?d = SimSymbol (symbol_name ?v2 @ '':add '' @ sv_str ops ?v1)"
      by (simp add: written_value)
    then show ?thesis by (simp add: concrete_result_def)
  next
    case False
    with s add1 r show ?thesis by simp
  qed
  have ror: "\<exists>msg. X86RotateRight_simulate ops xopc ia st = Inl (CHBSimError ia msg)"
    if "is_symbol (rhs st (x86_dst_operand xopc)) \<or> is_symbol (rhs st (x86_src_operand xopc))"
    using that symbol_not_literal
    by (auto simp: X86RotateRight_simulate_def Let_def)
  from sub_eq sub_safe add2 add1 add_safe ror show ?thesis by blast
qed

theorem simulate_symbol_operands_witness:
  "is_symbol (rhs st_sym (src2_operand opc_v0_a1_a0))
   \<and> MIPSSubtractUnsigned_simulate ops_plain opc_v0_a1_a0 ''0x400'' st_sym
       = Inl (CHBSymbolicExpression ''0x400'' ''v0'' ''val - val'')
   \<and> MIPSAddUnsigned_simulate ops_plain opc_v0_a1_a0 ''0x400'' st_sym
       = assign_and_advance st_sym ''v0'' (SimSymbol ''x:add val'')
   \<and> is_symbol (rhs st_sym (src1_operand opc_v0_a0_a1))
   \<and> \<not> is_symbol (rhs st_sym (src2_operand opc_v0_a0_a1))
   \<and> MIPSAddUnsigned_simulate ops_plain opc_v0_a0_a1 ''0x400'' st_sym
       = Inl (CHBSymbolicExpression ''0x400'' ''v0'' ''val + val'')
   \<and> is_symbol (rhs st_sym (x86_src_operand xopc_a1_a0))
   \<and> (\<exists>msg. X86RotateRight_simulate ops_plain xopc_a1_a0 ''0x400'' st_sym
         = Inl (CHBSimError ''0x400'' msg))"
proof -
  have s: "is_symbol (rhs st_sym (src2_operand opc_v0_a1_a0))"
    "is_symbol (rhs st_sym (x86_src_operand xopc_a1_a0))"
    "is_symbol (rhs st_sym (src1_operand opc_v0_a0_a1))"
    "\<not> is_symbol (rhs st_sym (src2_operand opc_v0_a0_a1))"
    by (simp_all add: rhs_def st_sym_def opc_v0_a1_a0_def xopc_a1_a0_def opc_v0_a0_a1_def)
  have u: "\<not> is_undefined (rhs st_sym (src1_operand opc_v0_a1_a0))"
    "\<not> is_undefined (rhs st_sym (src2_operand opc_v0_a1_a0))"
    by (simp_all add: rhs_def st_sym_def opc_v0_a1_a0_def is_undefined_def)
  have n: "symbol_name (rhs st_sym (src2_operand opc_v0_a1_a0)) = ''x''"
    by (simp add: rhs_def st_sym_def opc_v0_a1_a0_def)
  from simulate_symbol_operands [of st_sym opc_v0_a1_a0 ops_plain "''0x400''" xopc_a1_a0]
    simulate_symbol_operands [of st_sym opc_v0_a0_a1 ops_plain "''0x400''" xopc_a1_a0] s u n
  show ?thesis
    by (simp add: ops_plain_def opc_v0_a1_a0_def opc_v0_a0_a1_def)
qed

text \<open>
  Claim C8 as stated fails: with the symbol \<open>x\<close> in the second source, the ADDU step
  raises nothing.  It returns the state in which the destination holds the symbol
  \<open>x:add val\<close> and the program counter has advanced.
\<close>

theorem simulate_symbol_counterexample:
  "is_symbol (rhs st_sym (src2_operand opc_v0_a1_a0))
   \<and> (case MIPSAddUnsigned_simulate ops_plain opc_v0_a1_a0 ''0x400'' st_sym of
         Inl e \<Rightarrow> False
       | Inr st' \<Rightarrow> operand_values st' ''v0'' = SimSymbol ''x:add val''
                    \<and> programcounter st' = 4)"
  by (simp add: MIPSAddUnsigned_simulate_def Let_def rhs_def st_sym_def opc_v0_a1_a0_def
      ops_plain_def mk_symbol_def assign_and_advance_def simstate_set_def
      increment_programcounter_def)

end
